theory Spec2Isabelle
  imports Complex_Main
begin

section \<open>Numbers, vectors and errors\<close>

text \<open>
  The scenario-tree generator of \<^verbatim>\<open>planners/mind/scenario_tree.py\<close> works on
  floating-point tensors. The embedding reads every tensor entry as a real number.
  Where the source divides, the IEEE results that matter for a comparison are written
  out: a quotient by zero is an infinity or a NaN, and a NaN makes every comparison
  false. A vector that the source divides by its own zero norm is all NaN; the
  embedding writes such a vector as \<open>None\<close>.

  A tensor of shape \<open>[N, T, 2]\<close> is a list of \<open>N\<close> rows (one per agent) of \<open>T\<close>
  points; tensors are rectangular, so all rows have one length.
  Every \<^verbatim>\<open>raise\<close> and failed \<^verbatim>\<open>assert\<close> is a value \<open>Inl e\<close>.
\<close>

datatype error = AssertionError | IndexError | TypeError | KeyError | AttributeError

type_synonym vec2 = "real \<times> real"
type_synonym mat2 = "vec2 \<times> vec2"

definition vsub :: "vec2 \<Rightarrow> vec2 \<Rightarrow> vec2" where
  "vsub a b = (fst a - fst b, snd a - snd b)"

definition vadd :: "vec2 \<Rightarrow> vec2 \<Rightarrow> vec2" where
  "vadd a b = (fst a + fst b, snd a + snd b)"

definition vnorm :: "vec2 \<Rightarrow> real" where
  "vnorm a = sqrt (fst a * fst a + snd a * snd a)"

text \<open>\<^verbatim>\<open>torch.matmul(v, m)\<close> for a row vector \<open>v\<close> and a 2x2 matrix given by its rows.\<close>

definition matmul :: "vec2 \<Rightarrow> mat2 \<Rightarrow> vec2" where
  "matmul v m = (fst v * fst (fst m) + snd v * fst (snd m),
                 fst v * snd (fst m) + snd v * snd (snd m))"

definition transpose2 :: "mat2 \<Rightarrow> mat2" where
  "transpose2 m = ((fst (fst m), fst (snd m)), (snd (fst m), snd (snd m)))"

text \<open>\<^verbatim>\<open>torch.atan2(y, x)\<close> on reals (signed zeros are not told apart).\<close>

definition atan2 :: "real \<Rightarrow> real \<Rightarrow> real" where
  "atan2 y x =
     (if 0 < x then arctan (y / x)
      else if x < 0 then (if 0 \<le> y then arctan (y / x) + pi else arctan (y / x) - pi)
      else if 0 < y then pi / 2
      else if y < 0 then - (pi / 2)
      else 0)"

text \<open>\<^verbatim>\<open>v / torch.norm(v)\<close>: \<open>None\<close> is the all-NaN vector that \<open>0 / 0\<close> gives.\<close>

definition unit_vec :: "vec2 \<Rightarrow> vec2 option" where
  "unit_vec v = (if vnorm v = 0 then None else Some (fst v / vnorm v, snd v / vnorm v))"

text \<open>Python slices \<^verbatim>\<open>xs[:n]\<close> (\<open>n\<close> an integer), \<^verbatim>\<open>xs[-n:]\<close> and \<^verbatim>\<open>xs[a:b]\<close>.\<close>

definition slice_to :: "int \<Rightarrow> 'a list \<Rightarrow> 'a list" where
  "slice_to n xs = (if 0 \<le> n then take (nat n) xs else take (nat (int (length xs) + n)) xs)"

definition slice_last :: "nat \<Rightarrow> 'a list \<Rightarrow> 'a list" where
  "slice_last n xs = (if n = 0 then xs else drop (length xs - n) xs)"

definition slice_from_to :: "nat \<Rightarrow> int \<Rightarrow> 'a list \<Rightarrow> 'a list" where
  "slice_from_to a b xs = drop a (slice_to b xs)"

text \<open>\<^verbatim>\<open>t[:, i]\<close>: column \<open>i\<close> of a tensor; an index past the rows' length raises.\<close>

definition col :: "'a list list \<Rightarrow> nat \<Rightarrow> error + 'a list" where
  "col rows i = (if list_all (\<lambda>r. i < length r) rows then Inr (map (\<lambda>r. r ! i) rows)
                 else Inl IndexError)"

section \<open>The data model\<close>

text \<open>
  The Predicted payload: the dictionary \<^verbatim>\<open>cur_data\<close> that \<^verbatim>\<open>prune_merge\<close> builds for
  every surviving mode (its \<^verbatim>\<open>TRAJS\<close> entry, a dictionary of the three metadata lists,
  is flattened into the record).
\<close>

record pred_data =
  SCEN_PROB :: real
  CUR_T :: nat
  END_T :: nat
  PARENT_ID :: "string option"
  SCEN_ID :: string
  TRAJS_TYPE :: "real list list"
  TRAJS_TID :: "string list"
  TRAJS_CAT :: "string list"
  TRAJS_POS_HIST :: "vec2 list list"
  TRAJS_COV_HIST :: "real list list"
  TRAJS_ANG_HIST :: "real list list"
  TRAJS_VEL_HIST :: "vec2 list list"
  TGT_PTS :: "vec2 list"

text \<open>
  The observation window: the dictionary \<^verbatim>\<open>data\<close> of \<^verbatim>\<open>update_obser\<close> (a deep copy of
  the payload with the entries below added) and the root bundle of
  \<^verbatim>\<open>prepare_root_data\<close>. The entries \<^verbatim>\<open>LANE_GRAPH\<close>, \<^verbatim>\<open>RPE\<close> and \<^verbatim>\<open>TGT_RPE\<close> are
  computed by utilities from the entries kept here and are read by the network only;
  they are left out, and the network is taken as an arbitrary function of the record.
  A goal-feature row is (segment centre, segment vector, side-channel attributes);
  centre and vector are \<open>None\<close> when they are NaN.
\<close>

type_synonym goal_row = "vec2 option \<times> vec2 option \<times> real list"

record obs_data = pred_data +
  ORIG :: vec2
  ROT :: mat2
  TRAJS_POS_OBS :: "vec2 list list"
  TRAJS_ANG_OBS :: "vec2 list list"
  TRAJS_VEL_OBS :: "vec2 list list"
  PAD_OBS :: "real list list"
  TRAJS_CTRS :: "vec2 list"
  TRAJS_VECS :: "vec2 list"
  TGT_NODES :: "goal_row list"
  TGT_ANCH :: "vec2 \<times> vec2 option"

text \<open>Class \<^verbatim>\<open>ScenarioData\<close>.\<close>

record ScenarioData =
  data :: "pred_data option"
  obs_data :: "obs_data option"
  branch_flag :: bool
  end_flag :: bool
  terminate_flag :: bool

text \<open>
  One mode of the network's answer for one batch element: \<^verbatim>\<open>res_cls[0, k]\<close>, the
  positions \<^verbatim>\<open>res_reg[:, k, :, :2]\<close>, the covariance parameters \<^verbatim>\<open>res_reg[:, k, :, 2:]\<close>
  and the velocities \<^verbatim>\<open>res_aux[0][:, k]\<close>, each per agent and per step.
\<close>

record mode_out =
  res_cls :: real
  res_pos :: "vec2 list list"
  res_cov :: "real list list list"
  res_vel :: "vec2 list list"

subsection \<open>The tree\<close>

text \<open>
  Modelled from the spec: the classes \<^verbatim>\<open>Tree\<close> and \<^verbatim>\<open>Node\<close> of
  \<^verbatim>\<open>planners/basic/tree.py\<close> are not among the sources. The spec's data model reads:
  a tree is a mapping from node key to node; a node is its key, the key of its parent
  (none for the root), the ordered sequence of its children's keys, its depth and its
  payload; the parent of a non-root node exists before the insertion, and the depth
  is the parent's depth plus one; children lists are append-only. The tree supports
  insertion, leaf enumeration and lookup. The nodes are kept in insertion order.
\<close>

record 'a node =
  key :: string
  parent_key :: "string option"
  children_keys :: "string list"
  depth :: nat
  node_data :: 'a

type_synonym 'a tree = "'a node list"

definition Node :: "string \<Rightarrow> string option \<Rightarrow> 'a \<Rightarrow> 'a node" where
  "Node k p d = \<lparr>key = k, parent_key = p, children_keys = [], depth = 0, node_data = d\<rparr>"

definition get_node :: "'a tree \<Rightarrow> string \<Rightarrow> 'a node option" where
  "get_node t k = find (\<lambda>n. key n = k) t"

definition get_root :: "'a tree \<Rightarrow> 'a node option" where
  "get_root t = find (\<lambda>n. parent_key n = None) t"

definition get_leaf_nodes :: "'a tree \<Rightarrow> 'a node list" where
  "get_leaf_nodes t = filter (\<lambda>n. children_keys n = []) t"

definition add_child_key :: "string \<Rightarrow> string \<Rightarrow> 'a node \<Rightarrow> 'a node" where
  "add_child_key p k n = (if key n = p then n\<lparr>children_keys := children_keys n @ [k]\<rparr> else n)"

definition add_node :: "'a tree \<Rightarrow> 'a node \<Rightarrow> error + 'a tree" where
  "add_node t n =
     (case parent_key n of
        None \<Rightarrow> Inr (t @ [n\<lparr>depth := 0\<rparr>])
      | Some p \<Rightarrow>
          (case get_node t p of
             None \<Rightarrow> Inl KeyError
           | Some pn \<Rightarrow> Inr (map (add_child_key p (key n)) t @ [n\<lparr>depth := depth pn + 1\<rparr>])))"

section \<open>The generator\<close>

text \<open>
  Class \<^verbatim>\<open>ScenarioTreeGenerator\<close>: its configuration (\<^verbatim>\<open>obs_len\<close>, \<^verbatim>\<open>pred_len\<close>,
  \<^verbatim>\<open>config.max_depth\<close>, \<^verbatim>\<open>config.tar_dist_thres\<close>, \<^verbatim>\<open>config.tar_time_ahead\<close>), its state
  (\<^verbatim>\<open>tree\<close>, \<^verbatim>\<open>branch_depth\<close>), the target lane context, and its collaborators. The
  network (with its \<^verbatim>\<open>pre_process\<close>) and the utilities of \<^verbatim>\<open>planners/mind/utils.py\<close>
  that the modelled code calls are not among the sources that decide a claim; they are
  fields of the record, so every theorem holds for all of them.
  \<open>network g batch\<close> gives, per batch element, the list of modes; \<open>get_angle\<close> and
  \<open>get_max_covariance\<close> work entry by entry (one vector, one step's parameters).
\<close>

record gen =
  obs_len :: nat
  pred_len :: nat
  max_depth :: nat
  tar_dist_thres :: real
  tar_time_ahead :: real
  tree :: "ScenarioData tree"
  target_lane :: "vec2 list option"
  target_lane_info :: "real list list"
  ego_idx :: "nat option"
  branch_depth :: nat
  network :: "obs_data list \<Rightarrow> mode_out list list"
  get_origin_rotation :: "vec2 list \<Rightarrow> real list \<Rightarrow> vec2 \<times> mat2 \<times> real"
  get_angle :: "vec2 \<Rightarrow> real"
  get_max_covariance :: "real list \<Rightarrow> real"
  get_distance_to_polyline :: "vec2 list \<Rightarrow> vec2 \<Rightarrow> real"

definition seq_len :: "gen \<Rightarrow> nat" where
  "seq_len g = obs_len g + pred_len g"

text \<open>\<^verbatim>\<open>reset\<close>.\<close>

definition reset :: "gen \<Rightarrow> gen" where
  "reset g = g\<lparr>branch_depth := 0, tree := []\<rparr>"

text \<open>
  \<^verbatim>\<open>set_target_lane(target_lane, target_lane_info)\<close>: the polyline, and the per-point
  attribute channels concatenated into one row per point.
\<close>

definition set_target_lane :: "gen \<Rightarrow> vec2 list \<Rightarrow> real list list \<Rightarrow> gen" where
  "set_target_lane g lane info = g\<lparr>target_lane := Some lane, target_lane_info := info\<rparr>"

section \<open>The high-level command resolver\<close>

text \<open>\<^verbatim>\<open>torch.argmin\<close>: the index of the least entry, the lowest one on ties.\<close>

fun argmin_from :: "nat \<Rightarrow> real \<Rightarrow> nat \<Rightarrow> real list \<Rightarrow> nat" where
  "argmin_from best bv i [] = best"
| "argmin_from best bv i (x # xs) =
     (if x < bv then argmin_from i x (Suc i) xs else argmin_from best bv (Suc i) xs)"

definition argmin :: "real list \<Rightarrow> nat" where
  "argmin xs = (case xs of [] \<Rightarrow> 0 | x # r \<Rightarrow> argmin_from 0 x 1 r)"

text \<open>
  The loop \<^verbatim>\<open>while target_idx < len(target_lane) - 1 and travel_dist > 0\<close> of
  \<^verbatim>\<open>get_high_level_command\<close>.
\<close>

function walk_ahead :: "vec2 list \<Rightarrow> nat \<Rightarrow> real \<Rightarrow> nat" where
  "walk_ahead lane i d =
     (if int i < int (length lane) - 1 \<and> 0 < d
      then walk_ahead lane (i + 1) (d - vnorm (vsub (lane ! (i + 1)) (lane ! i)))
      else i)"
  by pat_completeness auto
termination
  by (relation "measure (\<lambda>(lane, i, d). length lane - i)") auto

declare walk_ahead.simps [simp del]

text \<open>
  The clamped index: \<^verbatim>\<open>if target_idx == len - 1: target_idx -= 1\<close>, then
  \<^verbatim>\<open>max(5, min(target_idx, len - 6))\<close>, on Python's integers.
\<close>

definition clamp_idx :: "nat \<Rightarrow> nat \<Rightarrow> nat" where
  "clamp_idx len i =
     (let j = (if int i = int len - 1 then int i - 1 else int i)
      in nat (max 5 (min j (int len - 6))))"

text \<open>
  \<^verbatim>\<open>t[torch.arange(a, b)]\<close>: the rows \<open>a, ..., b - 1\<close>; an index past the end raises.
\<close>

definition index_rows :: "'a list \<Rightarrow> nat \<Rightarrow> nat \<Rightarrow> error + 'a list" where
  "index_rows xs a b = (if b \<le> length xs \<or> b \<le> a then Inr (map (\<lambda>i. xs ! i) [a..<b])
                        else Inl IndexError)"

definition mean2 :: "vec2 list \<Rightarrow> vec2" where
  "mean2 ps = (sum_list (map fst ps) / real (length ps), sum_list (map snd ps) / real (length ps))"

text \<open>
  \<^verbatim>\<open>ctrs = (ctrln[:-1] + ctrln[1:]) / 2\<close> and \<^verbatim>\<open>vecs = ctrln[1:] - ctrln[:-1]\<close>: one
  centre and one vector per segment of the control line.
\<close>

definition seg_ctrs :: "vec2 list \<Rightarrow> vec2 list" where
  "seg_ctrs ps = map (\<lambda>(a, b). ((fst a + fst b) / 2, (snd a + snd b) / 2)) (zip (butlast ps) (tl ps))"

definition seg_vecs :: "vec2 list \<Rightarrow> vec2 list" where
  "seg_vecs ps = map (\<lambda>(a, b). vsub b a) (zip (butlast ps) (tl ps))"

text \<open>
  The last part of \<^verbatim>\<open>get_high_level_command\<close>, after the assertion: the window in the
  local frame, the anchor, and the goal feature in the anchor's frame. When the
  window's first and last point coincide, \<^verbatim>\<open>anch_vec\<close> is \<open>0 / 0\<close>, and with it the
  anchor rotation, the control line in the instance frame and every centre and vector
  of the goal feature are NaN.
\<close>

definition goal_feature ::
  "vec2 \<Rightarrow> mat2 \<Rightarrow> vec2 list \<Rightarrow> real list list
     \<Rightarrow> vec2 list \<times> goal_row list \<times> (vec2 \<times> vec2 option)" where
  "goal_feature orig rot target_lane_pts info_rows =
     (let lane_info = tl info_rows;
          ctrln = map (\<lambda>p. matmul (vsub p orig) rot) target_lane_pts;
          anch_pos = mean2 ctrln;
          anch_vec = unit_vec (vsub (last ctrln) (hd ctrln))
      in (case anch_vec of
            None \<Rightarrow>
              (target_lane_pts, map (\<lambda>r. (None, None, r)) lane_info, (anch_pos, None))
          | Some av \<Rightarrow>
              let anch_rot = ((fst av, - snd av), (snd av, fst av));
                  ctrln2 = map (\<lambda>p. matmul (vsub p anch_pos) anch_rot) ctrln
              in (target_lane_pts,
                  map (\<lambda>(c, v, r). (Some c, Some v, r))
                    (zip (seg_ctrs ctrln2) (zip (seg_vecs ctrln2) lane_info)),
                  (anch_pos, Some av))))"

text \<open>
  \<^verbatim>\<open>get_high_level_command(orig, rot, cur_vel, min_vel=0.5)\<close>. It returns
  \<^verbatim>\<open>(tgt_pts, tgt_nodes, tgt_anch)\<close>.
\<close>

definition get_high_level_command ::
  "gen \<Rightarrow> vec2 \<Rightarrow> mat2 \<Rightarrow> real \<Rightarrow> error + (vec2 list \<times> goal_row list \<times> (vec2 \<times> vec2 option))" where
  "get_high_level_command g orig rot cur_vel =
     (case target_lane g of
        None \<Rightarrow> Inl TypeError
      | Some lane \<Rightarrow>
          if lane = [] then Inl IndexError
          else
            let dists = map (\<lambda>p. vnorm (vsub p orig)) lane;
                closest_idx = argmin dists;
                travel_dist = max cur_vel 0.5 * tar_time_ahead g;
                target_idx = clamp_idx (length lane) (walk_ahead lane closest_idx travel_dist)
            in (case index_rows lane (target_idx - 5) (target_idx + 6) of
                  Inl e \<Rightarrow> Inl e
                | Inr target_lane_pts \<Rightarrow>
                   (case index_rows (target_lane_info g) (target_idx - 5) (target_idx + 6) of
                      Inl e \<Rightarrow> Inl e
                    | Inr info_rows \<Rightarrow>
                       if length target_lane_pts \<noteq> 11 then Inl AssertionError
                       else Inr (goal_feature orig rot target_lane_pts info_rows))))"

section \<open>The branch decision\<close>

text \<open>
  \<^verbatim>\<open>torch.sum(trajs_cov[:, obs_len + t] / trajs_cov[:, compare_t] > cov_change_rate) > 0\<close>
  with \<^verbatim>\<open>cov_change_rate = 9\<close>: some agent's quotient exceeds 9. A positive number
  over zero is plus infinity; zero or a negative number over zero is NaN or minus
  infinity, which exceed nothing.
\<close>

definition ratio_exceeds :: "real \<Rightarrow> real \<Rightarrow> bool" where
  "ratio_exceeds a b = (if b = 0 then 0 < a else 9 < a / b)"

definition cov_grows :: "real list \<Rightarrow> real list \<Rightarrow> bool" where
  "cov_grows now ref = list_ex (\<lambda>(a, b). ratio_exceeds a b) (zip now ref)"

text \<open>
  The loop \<^verbatim>\<open>for t in range(cur_t + 1, end_t)\<close> of \<^verbatim>\<open>get_branch_time\<close>: odd steps are
  skipped, and the first even step with a growing covariance ends the loop.
\<close>

fun branch_scan :: "nat \<Rightarrow> real list list \<Rightarrow> nat \<Rightarrow> nat list \<Rightarrow> error + nat option" where
  "branch_scan ol cov compare_t [] = Inr None"
| "branch_scan ol cov compare_t (t # ts) =
     (if t mod 2 = 1 then branch_scan ol cov compare_t ts
      else
        (case col cov (ol + t) of
           Inl e \<Rightarrow> Inl e
         | Inr now \<Rightarrow>
            (case col cov compare_t of
               Inl e \<Rightarrow> Inl e
             | Inr ref \<Rightarrow>
                 if cov_grows now ref then Inr (Some t)
                 else branch_scan ol cov compare_t ts)))"

definition compare_step :: "gen \<Rightarrow> pred_data \<Rightarrow> nat" where
  "compare_step g pd = (if CUR_T pd = 0 then obs_len g + CUR_T pd + 1 else obs_len g + CUR_T pd)"

text \<open>
  \<^verbatim>\<open>get_branch_time(pred_data)\<close>: the branch time, and the payload as the call leaves it
  (the source writes the branch time into \<^verbatim>\<open>pred_data["END_T"]\<close>).
\<close>

definition get_branch_time :: "gen \<Rightarrow> pred_data \<Rightarrow> error + (nat \<times> pred_data)" where
  "get_branch_time g pd =
     (case branch_scan (obs_len g) (TRAJS_COV_HIST pd) (compare_step g pd)
             [CUR_T pd + 1 ..< END_T pd] of
        Inl e \<Rightarrow> Inl e
      | Inr (Some t) \<Rightarrow> Inr (t, pd\<lparr>END_T := t\<rparr>)
      | Inr None \<Rightarrow> Inr (END_T pd, pd))"

text \<open>
  \<^verbatim>\<open>update_obser(cur_data)\<close> returns the fresh observation window and the payload, whose
  four history buffers it has cut to the first \<^verbatim>\<open>obs_len + (END_T - CUR_T)\<close> steps.
\<close>

definition cut_hist :: "gen \<Rightarrow> pred_data \<Rightarrow> pred_data" where
  "cut_hist g cur =
     (let n = int (obs_len g) + (int (END_T cur) - int (CUR_T cur))
      in cur\<lparr>TRAJS_POS_HIST := map (slice_to n) (TRAJS_POS_HIST cur),
              TRAJS_COV_HIST := map (slice_to n) (TRAJS_COV_HIST cur),
              TRAJS_ANG_HIST := map (slice_to n) (TRAJS_ANG_HIST cur),
              TRAJS_VEL_HIST := map (slice_to n) (TRAJS_VEL_HIST cur)\<rparr>)"

text \<open>One pass of the loop over the agents that normalises each trajectory in its own frame.\<close>

definition agent_frame ::
  "gen \<Rightarrow> vec2 list \<times> real list \<times> vec2 list
       \<Rightarrow> vec2 list \<times> real list \<times> vec2 list \<times> vec2 \<times> vec2" where
  "agent_frame g a =
     (case a of (traj_pos, traj_ang, traj_vel) \<Rightarrow>
        (case get_origin_rotation g traj_pos traj_ang of (orig_act, rot_act, theta_act) \<Rightarrow>
           (map (\<lambda>p. matmul (vsub p orig_act) rot_act) traj_pos,
            map (\<lambda>x. x - theta_act) traj_ang,
            map (\<lambda>v. matmul v rot_act) traj_vel,
            orig_act,
            (cos theta_act, sin theta_act))))"

text \<open>
  The parts of \<^verbatim>\<open>update_obser\<close> after the cut: the last \<^verbatim>\<open>obs_len\<close> steps of a buffer,
  the scene frame of the agent at index 0, the agents' own frames, and the dictionary
  \<^verbatim>\<open>data\<close> assembled from them and from the resolver's answer.
\<close>

definition obs_hist :: "gen \<Rightarrow> 'a list list \<Rightarrow> 'a list list" where
  "obs_hist g h = map (slice_last (obs_len g)) h"

definition scene_frame :: "gen \<Rightarrow> pred_data \<Rightarrow> vec2 \<times> mat2 \<times> real" where
  "scene_frame g cur =
     get_origin_rotation g (hd (obs_hist g (TRAJS_POS_HIST cur))) (hd (obs_hist g (TRAJS_ANG_HIST cur)))"

definition agent_frames ::
  "gen \<Rightarrow> pred_data \<Rightarrow> (vec2 list \<times> real list \<times> vec2 list \<times> vec2 \<times> vec2) list" where
  "agent_frames g cur =
     (case scene_frame g cur of (orig_seq, rot_seq, theta_seq) \<Rightarrow>
        let trajs_pos = map (map (\<lambda>p. matmul (vsub p orig_seq) rot_seq)) (obs_hist g (TRAJS_POS_HIST cur));
            trajs_ang = map (map (\<lambda>x. x - theta_seq)) (obs_hist g (TRAJS_ANG_HIST cur));
            trajs_vel = map (map (\<lambda>v. matmul v rot_seq)) (obs_hist g (TRAJS_VEL_HIST cur))
        in map (agent_frame g) (zip trajs_pos (zip trajs_ang trajs_vel)))"

definition obs_window ::
  "gen \<Rightarrow> pred_data \<Rightarrow> vec2 list \<times> goal_row list \<times> (vec2 \<times> vec2 option) \<Rightarrow> obs_data" where
  "obs_window g cur tgt =
     (case scene_frame g cur of (orig_seq, rot_seq, theta_seq) \<Rightarrow>
      case tgt of (tgt_pts, tgt_nodes, tgt_anch) \<Rightarrow>
        pred_data.extend
          (cur\<lparr>CUR_T := END_T cur, END_T := pred_len g,
               TRAJS_POS_HIST := obs_hist g (TRAJS_POS_HIST cur),
               TRAJS_COV_HIST := obs_hist g (TRAJS_COV_HIST cur),
               TRAJS_ANG_HIST := obs_hist g (TRAJS_ANG_HIST cur),
               TRAJS_VEL_HIST := obs_hist g (TRAJS_VEL_HIST cur),
               TGT_PTS := tgt_pts\<rparr>)
          (obs_data.fields orig_seq rot_seq
             (map (\<lambda>(p, a, v, c, d). p) (agent_frames g cur))
             (map (\<lambda>(p, a, v, c, d). map (\<lambda>x. (cos x, sin x)) a) (agent_frames g cur))
             (map (\<lambda>(p, a, v, c, d). v) (agent_frames g cur))
             (map (\<lambda>r. slice_to (int (obs_len g)) (map (\<lambda>x. 1) r)) (obs_hist g (TRAJS_ANG_HIST cur)))
             (map (\<lambda>(p, a, v, c, d). c) (agent_frames g cur))
             (map (\<lambda>(p, a, v, c, d). d) (agent_frames g cur))
             tgt_nodes tgt_anch))"

definition update_obser :: "gen \<Rightarrow> pred_data \<Rightarrow> error + (obs_data \<times> pred_data)" where
  "update_obser g cur0 =
     (let cur = cut_hist g cur0
      in if obs_hist g (TRAJS_POS_HIST cur) = [] \<or> obs_hist g (TRAJS_ANG_HIST cur) = []
         then Inl IndexError
         else
          let trajs_vel_obs = map (\<lambda>(p, a, v, c, d). v) (agent_frames g cur)
          in if trajs_vel_obs = [] \<or> hd trajs_vel_obs = [] then Inl IndexError
             else
              (case scene_frame g cur of (orig_seq, rot_seq, theta_seq) \<Rightarrow>
                (case get_high_level_command g orig_seq rot_seq (vnorm (last (hd trajs_vel_obs))) of
                   Inl e \<Rightarrow> Inl e
                 | Inr tgt \<Rightarrow> Inr (obs_window g cur tgt, cur))))"

text \<open>The body of the loop of \<^verbatim>\<open>decide_branch\<close>, for one leaf.\<close>

definition decide_leaf :: "gen \<Rightarrow> ScenarioData node \<Rightarrow> error + ScenarioData node" where
  "decide_leaf g l =
     (let d = node_data l in
      if branch_flag d
      then Inr (l\<lparr>node_data := d\<lparr>branch_flag := False, terminate_flag := True\<rparr>\<rparr>)
      else if \<not> end_flag d then
        (if max_depth g \<le> depth l
         then Inr (l\<lparr>node_data := d\<lparr>terminate_flag := True\<rparr>\<rparr>)
         else
           (case data d of
              None \<Rightarrow> Inl TypeError
            | Some pd \<Rightarrow>
               (case get_branch_time g pd of
                  Inl e \<Rightarrow> Inl e
                | Inr (t_b, pd1) \<Rightarrow>
                    if t_b < pred_len g
                    then
                      (case update_obser g pd1 of
                         Inl e \<Rightarrow> Inl e
                       | Inr (ob, pd2) \<Rightarrow>
                           Inr (l\<lparr>node_data :=
                                  d\<lparr>obs_data := Some ob, data := Some pd2, branch_flag := True\<rparr>\<rparr>))
                    else Inr (l\<lparr>node_data := d\<lparr>data := Some pd1, end_flag := True\<rparr>\<rparr>))))
      else Inr l)"

text \<open>
  \<^verbatim>\<open>decide_branch\<close>: the loop over \<^verbatim>\<open>tree.get_leaf_nodes()\<close>. Every leaf is visited once
  and the body changes the visited leaf only, so the pass goes through the nodes in
  insertion order and leaves the inner nodes as they are; an exception ends it.
\<close>

fun decide_nodes :: "gen \<Rightarrow> ScenarioData tree \<Rightarrow> error + ScenarioData tree" where
  "decide_nodes g [] = Inr []"
| "decide_nodes g (n # ns) =
     (if children_keys n = []
      then (case decide_leaf g n of
              Inl e \<Rightarrow> Inl e
            | Inr n' \<Rightarrow> (case decide_nodes g ns of Inl e \<Rightarrow> Inl e | Inr ns' \<Rightarrow> Inr (n' # ns')))
      else (case decide_nodes g ns of Inl e \<Rightarrow> Inl e | Inr ns' \<Rightarrow> Inr (n # ns')))"

definition decide_branch :: "gen \<Rightarrow> error + gen" where
  "decide_branch g = (case decide_nodes g (tree g) of Inl e \<Rightarrow> Inl e | Inr t \<Rightarrow> Inr (g\<lparr>tree := t\<rparr>))"

text \<open>\<^verbatim>\<open>get_branch_set\<close> returns the branch-ready leaves and increments \<^verbatim>\<open>branch_depth\<close>.\<close>

definition get_branch_set :: "gen \<Rightarrow> ScenarioData node list \<times> gen" where
  "get_branch_set g =
     (filter (\<lambda>l. branch_flag (node_data l)) (get_leaf_nodes (tree g)),
      g\<lparr>branch_depth := branch_depth g + 1\<rparr>)"

text \<open>\<^verbatim>\<open>get_end_set\<close>.\<close>

definition get_end_set :: "gen \<Rightarrow> ScenarioData node list" where
  "get_end_set g = filter (\<lambda>n. end_flag (node_data n)) (get_leaf_nodes (tree g))"

section \<open>Prune and merge\<close>

text \<open>
  The scenario identifier \<^verbatim>\<open>"{}_{}_{}".format(self.branch_depth, idx, scene_id)\<close>, with
  Python's decimal rendering of the three numbers.
\<close>

definition digit_char :: "nat \<Rightarrow> char" where
  "digit_char d = ''0123456789'' ! d"

function str_nat :: "nat \<Rightarrow> string" where
  "str_nat n = (if n < 10 then [digit_char n] else str_nat (n div 10) @ [digit_char (n mod 10)])"
  by pat_completeness auto
termination
  by (relation "measure id") auto

declare str_nat.simps [simp del]

definition scen_id :: "nat \<Rightarrow> nat \<Rightarrow> nat \<Rightarrow> string" where
  "scen_id d idx k = str_nat d @ ''_'' @ str_nat idx @ ''_'' @ str_nat k"

text \<open>
  \<^verbatim>\<open>torch.argsort(res_cls, dim=1, descending=True)[0]\<close>: the mode indices by descending
  probability (equal probabilities in index order).
\<close>

definition argsort_desc :: "real list \<Rightarrow> nat list" where
  "argsort_desc ps = sort_key (\<lambda>i. - (ps ! i)) [0..<length ps]"

text \<open>
  The topology signature of one non-ego agent: the sum of the wrapped differences of
  the bearing of the vector from the agent at index 0 to it. A step at which the two
  coincide has a NaN bearing; NaN (\<open>None\<close>) spreads through the differences and the sum.
\<close>

definition wrap_angle :: "real \<Rightarrow> real" where
  "wrap_angle d = atan2 (sin d) (cos d)"

definition bearing :: "vec2 \<Rightarrow> vec2 \<Rightarrow> real option" where
  "bearing e p = map_option (\<lambda>v. atan2 (snd v) (fst v)) (unit_vec (vsub p e))"

definition diff_opt :: "real option \<times> real option \<Rightarrow> real option" where
  "diff_opt ab = (case ab of (Some a, Some b) \<Rightarrow> Some (wrap_angle (b - a)) | _ \<Rightarrow> None)"

definition add_opt :: "real option \<Rightarrow> real option \<Rightarrow> real option" where
  "add_opt x acc = (case (x, acc) of (Some a, Some b) \<Rightarrow> Some (a + b) | _ \<Rightarrow> None)"

definition topo_sig :: "vec2 list \<Rightarrow> vec2 list \<Rightarrow> real option" where
  "topo_sig ego traj =
     (let ang = map (\<lambda>(p, e). bearing e p) (zip traj ego);
          ang_diff = map diff_opt (zip (butlast ang) (tl ang))
      in foldr add_opt ang_diff (Some 0))"

definition topos_of :: "vec2 list list \<Rightarrow> real option list" where
  "topos_of trajs_pos_pred = map (topo_sig (hd trajs_pos_pred)) (tl trajs_pos_pred)"

text \<open>
  The merge test \<^verbatim>\<open>torch.sum((torch.abs(topos_diff) - min_topo_change) > 0) > 0\<close> with
  \<^verbatim>\<open>min_topo_change = pi / 6\<close>: some agent's wrapped signature difference exceeds the
  threshold. A NaN difference exceeds nothing.
\<close>

definition topo_differs :: "real option \<Rightarrow> real option \<Rightarrow> bool" where
  "topo_differs a b =
     (case (a, b) of (Some x, Some y) \<Rightarrow> 0 < \<bar>wrap_angle (x - y)\<bar> - pi / 6 | _ \<Rightarrow> False)"

definition distinguishable :: "real option list \<Rightarrow> real option list \<Rightarrow> bool" where
  "distinguishable sel res = list_ex (\<lambda>(a, b). topo_differs a b) (zip sel res)"

text \<open>
  A candidate is \<^verbatim>\<open>[cur_data, scene_prob, topos]\<close>. The merge loop
  \<^verbatim>\<open>while len(data_candidates) > 0\<close> keeps the first candidate and, of the later ones,
  those distinguishable from it.
\<close>

type_synonym cand = "pred_data \<times> real \<times> real option list"

function merge_select :: "cand list \<Rightarrow> cand list" where
  "merge_select [] = []"
| "merge_select (c # cs) =
     c # merge_select (filter (\<lambda>d. distinguishable (snd (snd c)) (snd (snd d))) cs)"
  by pat_completeness auto
termination
  by (relation "measure length") (auto simp: less_Suc_eq_le)

text \<open>
  The body of the loop \<^verbatim>\<open>for scene_id in scene_idcs\<close> for the mode \<open>k\<close>: \<open>Inr None\<close> when
  the mode is pruned (\<^verbatim>\<open>continue\<close>), else the candidate. The tensors of one batch
  element agree on the number of agents.
\<close>

definition candidate :: "gen \<Rightarrow> obs_data \<Rightarrow> nat \<Rightarrow> nat \<Rightarrow> mode_out \<Rightarrow> error + cand option" where
  "candidate g ob idx k m =
     (let orig = ORIG ob; rot = ROT ob;
          theta_global = atan2 (fst (snd rot)) (fst (fst rot));
          scene_prob = res_cls m;
          trajs_theta = map (\<lambda>v. atan2 (snd v) (fst v)) (TRAJS_VECS ob);
          trajs_rots = map (\<lambda>th. ((cos th, - sin th), (sin th, cos th))) trajs_theta;
          pos1 = map (\<lambda>(traj, r, c). map (\<lambda>p. vadd (matmul p (transpose2 r)) c) traj)
                     (zip (res_pos m) (zip trajs_rots (TRAJS_CTRS ob)));
          vel1 = map (\<lambda>(traj, r). map (\<lambda>v. matmul v (transpose2 r)) traj)
                     (zip (res_vel m) trajs_rots);
          trajs_pos_pred = map (map (\<lambda>p. vadd (matmul p (transpose2 rot)) orig)) pos1;
          trajs_vel_pred = map (map (\<lambda>v. matmul v (transpose2 rot))) vel1;
          trajs_ang_pred = map (\<lambda>(traj, th). map (\<lambda>v. get_angle g v + th + theta_global) traj)
                               (zip (res_vel m) trajs_theta)
      in if list_ex (\<lambda>h. h = []) (TRAJS_COV_HIST ob) then Inl IndexError
         else
          let trajs_cov_pred = map (\<lambda>(traj, h). map (\<lambda>c. get_max_covariance g c + last h) traj)
                                   (zip (res_cov m) (TRAJS_COV_HIST ob));
              cur_data =
                \<lparr>SCEN_PROB = scene_prob * SCEN_PROB ob,
                 CUR_T = CUR_T ob,
                 END_T = END_T ob,
                 PARENT_ID = Some (SCEN_ID ob),
                 SCEN_ID = scen_id (branch_depth g) idx k,
                 TRAJS_TYPE = TRAJS_TYPE ob,
                 TRAJS_TID = TRAJS_TID ob,
                 TRAJS_CAT = TRAJS_CAT ob,
                 TRAJS_POS_HIST = map (\<lambda>(h, p). take (seq_len g) (h @ p))
                                      (zip (TRAJS_POS_HIST ob) trajs_pos_pred),
                 TRAJS_COV_HIST = map (\<lambda>(h, p). take (seq_len g) (h @ p))
                                      (zip (TRAJS_COV_HIST ob) trajs_cov_pred),
                 TRAJS_ANG_HIST = map (\<lambda>(h, p). take (seq_len g) (h @ p))
                                      (zip (TRAJS_ANG_HIST ob) trajs_ang_pred),
                 TRAJS_VEL_HIST = map (\<lambda>(h, p). take (seq_len g) (h @ p))
                                      (zip (TRAJS_VEL_HIST ob) trajs_vel_pred),
                 TGT_PTS = TGT_PTS ob\<rparr>
          in if SCEN_PROB cur_data < 0.001 then Inr None
             else
              (case (case (target_lane g, ego_idx g) of
                       (Some lane, Some e) \<Rightarrow>
                         if length (TRAJS_POS_HIST cur_data) \<le> e
                            \<or> length (TRAJS_COV_HIST cur_data) \<le> e
                            \<or> TRAJS_POS_HIST cur_data ! e = []
                            \<or> TRAJS_COV_HIST cur_data ! e = []
                         then Inl IndexError
                         else Inr (tar_dist_thres g
                                     < get_distance_to_polyline g lane (last (TRAJS_POS_HIST cur_data ! e))
                                       - last (TRAJS_COV_HIST cur_data ! e))
                     | _ \<Rightarrow> Inr False) of
                 Inl e \<Rightarrow> Inl e
               | Inr True \<Rightarrow> Inr None
               | Inr False \<Rightarrow>
                   if trajs_pos_pred = [] then Inl IndexError
                   else Inr (Some (cur_data, scene_prob, topos_of trajs_pos_pred))))"

fun mode_candidates ::
  "gen \<Rightarrow> obs_data \<Rightarrow> nat \<Rightarrow> mode_out list \<Rightarrow> nat list \<Rightarrow> error + cand list" where
  "mode_candidates g ob idx modes [] = Inr []"
| "mode_candidates g ob idx modes (k # ks) =
     (case candidate g ob idx k (modes ! k) of
        Inl e \<Rightarrow> Inl e
      | Inr c \<Rightarrow>
          (case mode_candidates g ob idx modes ks of
             Inl e \<Rightarrow> Inl e
           | Inr cs \<Rightarrow> Inr (case c of None \<Rightarrow> cs | Some x \<Rightarrow> x # cs)))"

text \<open>
  \<^verbatim>\<open>prune_merge(data, out)\<close>: the loop \<^verbatim>\<open>for idx in range(batch_size)\<close>; a batch element
  without an answer of the network raises.
\<close>

fun prune_merge_from ::
  "gen \<Rightarrow> nat \<Rightarrow> obs_data list \<Rightarrow> mode_out list list \<Rightarrow> error + pred_data list" where
  "prune_merge_from g idx [] outs = Inr []"
| "prune_merge_from g idx (ob # obs) [] = Inl IndexError"
| "prune_merge_from g idx (ob # obs) (modes # outs) =
     (case mode_candidates g ob idx modes (argsort_desc (map res_cls modes)) of
        Inl e \<Rightarrow> Inl e
      | Inr data_candidates \<Rightarrow>
          (case prune_merge_from g (idx + 1) obs outs of
             Inl e \<Rightarrow> Inl e
           | Inr rest \<Rightarrow> Inr (map fst (merge_select data_candidates) @ rest)))"

definition prune_merge :: "gen \<Rightarrow> obs_data list \<Rightarrow> mode_out list list \<Rightarrow> error + pred_data list" where
  "prune_merge g batch out = prune_merge_from g 0 batch out"

section \<open>The expansion loop\<close>

text \<open>\<^verbatim>\<open>create_nodes(pred_bar)\<close>: every payload becomes a child of its \<^verbatim>\<open>PARENT_ID\<close>.\<close>

definition fresh_data :: "pred_data \<Rightarrow> ScenarioData" where
  "fresh_data pred = \<lparr>data = Some pred, obs_data = None, branch_flag = False,
                       end_flag = False, terminate_flag = False\<rparr>"

fun create_nodes_in :: "ScenarioData tree \<Rightarrow> pred_data list \<Rightarrow> error + ScenarioData tree" where
  "create_nodes_in t [] = Inr t"
| "create_nodes_in t (pred # rest) =
     (case add_node t (Node (SCEN_ID pred) (PARENT_ID pred) (fresh_data pred)) of
        Inl e \<Rightarrow> Inl e
      | Inr t' \<Rightarrow> create_nodes_in t' rest)"

definition create_nodes :: "gen \<Rightarrow> pred_data list \<Rightarrow> error + gen" where
  "create_nodes g pred_bar =
     (case create_nodes_in (tree g) pred_bar of Inl e \<Rightarrow> Inl e | Inr t \<Rightarrow> Inr (g\<lparr>tree := t\<rparr>))"

text \<open>
  \<^verbatim>\<open>prepare_root_data(data)\<close> for the bundle of \<^verbatim>\<open>process_data\<close>, a batch of one element:
  the observation is taken back to the global frame and becomes the history.
\<close>

definition prepare_root_data :: "gen \<Rightarrow> obs_data \<Rightarrow> error + obs_data" where
  "prepare_root_data g d =
     (let orig = ORIG d; rot = ROT d;
          theta_global = atan2 (fst (snd rot)) (fst (fst rot));
          trajs_pos_obs = TRAJS_POS_OBS d;
          trajs_theta = map (\<lambda>v. atan2 (snd v) (fst v)) (TRAJS_VECS d);
          trajs_rots = map (\<lambda>th. ((cos th, - sin th), (sin th, cos th))) trajs_theta
      in if trajs_pos_obs = [] then Inl IndexError
         else
          let pos1 = map (\<lambda>(traj, r, c). map (\<lambda>p. vadd (matmul p (transpose2 r)) c) traj)
                         (zip trajs_pos_obs (zip trajs_rots (TRAJS_CTRS d)));
              vel1 = map (\<lambda>(traj, r). map (\<lambda>v. matmul v (transpose2 r)) traj)
                         (zip (TRAJS_VEL_OBS d) trajs_rots)
          in Inr (d\<lparr>SCEN_PROB := 1, CUR_T := 0, END_T := pred_len g,
                     PARENT_ID := None, SCEN_ID := ''root'',
                     TRAJS_POS_HIST := map (map (\<lambda>p. vadd (matmul p (transpose2 rot)) orig)) pos1,
                     TRAJS_COV_HIST := map (\<lambda>traj. map (\<lambda>p. 1 / 100000) (hd trajs_pos_obs))
                                           trajs_pos_obs,
                     TRAJS_ANG_HIST := map (\<lambda>(traj, th). map (\<lambda>v. get_angle g v + th + theta_global) traj)
                                           (zip (TRAJS_ANG_OBS d) trajs_theta),
                     TRAJS_VEL_HIST := map (map (\<lambda>v. matmul v (transpose2 rot))) vel1\<rparr>))"

text \<open>
  \<^verbatim>\<open>init_scenario_tree(data)\<close>: the root is inserted branch-ready, expanded once, and the
  first branch decision is taken.
\<close>

definition root_data0 :: "obs_data \<Rightarrow> ScenarioData" where
  "root_data0 rd = \<lparr>data = None, obs_data = Some rd, branch_flag = True,
                     end_flag = False, terminate_flag = False\<rparr>"

definition init_scenario_tree :: "gen \<Rightarrow> obs_data \<Rightarrow> error + gen" where
  "init_scenario_tree g d =
     (case prepare_root_data g d of
        Inl e \<Rightarrow> Inl e
      | Inr root_data \<Rightarrow>
         (case add_node (tree g) (Node ''root'' None (root_data0 root_data)) of
            Inl e \<Rightarrow> Inl e
          | Inr t \<Rightarrow>
             (let g1 = g\<lparr>tree := t\<rparr> in
              case prune_merge g1 [root_data] (network g1 [root_data]) of
                Inl e \<Rightarrow> Inl e
              | Inr pred_bar \<Rightarrow>
                 (case create_nodes g1 pred_bar of
                    Inl e \<Rightarrow> Inl e
                  | Inr g2 \<Rightarrow> decide_branch g2))))"

text \<open>
  The body of \<^verbatim>\<open>while branch_nodes\<close> in \<^verbatim>\<open>branch_aime\<close>, up to the branch decision.
  \<^verbatim>\<open>collate_fn\<close> gathers the observation windows of the branch nodes into the batch.
\<close>

fun collate_fn :: "ScenarioData node list \<Rightarrow> error + obs_data list" where
  "collate_fn [] = Inr []"
| "collate_fn (n # ns) =
     (case obs_data (node_data n) of
        None \<Rightarrow> Inl TypeError
      | Some ob \<Rightarrow> (case collate_fn ns of Inl e \<Rightarrow> Inl e | Inr obs \<Rightarrow> Inr (ob # obs)))"

definition aime_round :: "gen \<Rightarrow> ScenarioData node list \<Rightarrow> error + gen" where
  "aime_round g branch_nodes =
     (case collate_fn branch_nodes of
        Inl e \<Rightarrow> Inl e
      | Inr data_batch \<Rightarrow>
         (case prune_merge g data_batch (network g data_batch) of
            Inl e \<Rightarrow> Inl e
          | Inr pred_bar \<Rightarrow>
             (case create_nodes g pred_bar of
                Inl e \<Rightarrow> Inl e
              | Inr g' \<Rightarrow> decide_branch g')))"

text \<open>
  The loop \<^verbatim>\<open>while branch_nodes\<close> with fuel: \<open>None\<close> when the rounds allowed do not
  empty the branch set, \<open>Some (Inl e)\<close> when a round raises, \<open>Some (Inr g)\<close> with the
  generator at the loop's exit.
\<close>

fun aime_loop :: "nat \<Rightarrow> ScenarioData node list \<times> gen \<Rightarrow> (error + gen) option" where
  "aime_loop n (branch_nodes, g) =
     (if branch_nodes = [] then Some (Inr g)
      else (case n of
              0 \<Rightarrow> None
            | Suc m \<Rightarrow>
               (case aime_round g branch_nodes of
                  Inl e \<Rightarrow> Some (Inl e)
                | Inr g' \<Rightarrow> aime_loop m (get_branch_set g'))))"

section \<open>Tree extraction\<close>

text \<open>
  The payload of an output node: the list \<^verbatim>\<open>[prob]\<close>, later
  \<^verbatim>\<open>[prob, positions, covariances, goal points]\<close>. The probability is \<open>None\<close> when it is
  not finite (numpy divides by a zero total without raising).
\<close>

record out_data =
  prob :: "real option"
  segs :: "(vec2 list list \<times> real list list \<times> vec2 list) option"

definition out1 :: "real option \<Rightarrow> out_data" where
  "out1 p = \<lparr>prob = p, segs = None\<rparr>"

definition set_end_flag :: "string \<Rightarrow> ScenarioData tree \<Rightarrow> ScenarioData tree" where
  "set_end_flag k t =
     map (\<lambda>n. if key n = k then n\<lparr>node_data := (node_data n)\<lparr>end_flag := True\<rparr>\<rparr> else n) t"

text \<open>
  \<^verbatim>\<open>while node.parent_key is not None: node.data.end_flag = True; node = get_node(...)\<close>,
  with fuel: the walk up from the node with key \<open>k\<close>.
\<close>

fun mark_up :: "nat \<Rightarrow> ScenarioData tree \<Rightarrow> string \<Rightarrow> (error + ScenarioData tree) option" where
  "mark_up fuel t k =
     (case get_node t k of
        None \<Rightarrow> Some (Inl KeyError)
      | Some n \<Rightarrow>
         (case parent_key n of
            None \<Rightarrow> Some (Inr t)
          | Some p \<Rightarrow> (case fuel of 0 \<Rightarrow> None | Suc f \<Rightarrow> mark_up f (set_end_flag k t) p)))"

fun mark_all :: "nat \<Rightarrow> ScenarioData tree \<Rightarrow> string list \<Rightarrow> (error + ScenarioData tree) option" where
  "mark_all fuel t [] = Some (Inr t)"
| "mark_all fuel t (k # ks) =
     (case mark_up fuel t k of
        None \<Rightarrow> None
      | Some (Inl e) \<Rightarrow> Some (Inl e)
      | Some (Inr t') \<Rightarrow> mark_all fuel t' ks)"

text \<open>The children of a node, looked up by key in the search tree.\<close>

fun lookup_all :: "'a tree \<Rightarrow> string list \<Rightarrow> error + 'a node list" where
  "lookup_all t [] = Inr []"
| "lookup_all t (k # ks) =
     (case get_node t k of
        None \<Rightarrow> Inl KeyError
      | Some n \<Rightarrow> (case lookup_all t ks of Inl e \<Rightarrow> Inl e | Inr ns \<Rightarrow> Inr (n # ns)))"

text \<open>\<^verbatim>\<open>total_prob\<close>: the sum of \<^verbatim>\<open>SCEN_PROB\<close> over the end-flagged children.\<close>

fun total_scen_prob :: "ScenarioData node list \<Rightarrow> error + real" where
  "total_scen_prob [] = Inr 0"
| "total_scen_prob (c # cs) =
     (case data (node_data c) of
        None \<Rightarrow> Inl TypeError
      | Some pd \<Rightarrow> (case total_scen_prob cs of Inl e \<Rightarrow> Inl e | Inr s \<Rightarrow> Inr (SCEN_PROB pd + s)))"

definition child_prob :: "real option \<Rightarrow> real \<Rightarrow> real \<Rightarrow> real option" where
  "child_prob parent_prob total_prob p =
     (case parent_prob of
        None \<Rightarrow> None
      | Some pp \<Rightarrow> if total_prob = 0 then None else Some (p / total_prob * pp))"

fun add_children ::
  "out_data tree \<Rightarrow> string \<Rightarrow> real option \<Rightarrow> real \<Rightarrow> ScenarioData node list \<Rightarrow> error + out_data tree" where
  "add_children dt pk parent_prob total_prob [] = Inr dt"
| "add_children dt pk parent_prob total_prob (c # cs) =
     (case data (node_data c) of
        None \<Rightarrow> Inl TypeError
      | Some pd \<Rightarrow>
         (case add_node dt (Node (key c) (Some pk) (out1 (child_prob parent_prob total_prob (SCEN_PROB pd)))) of
            Inl e \<Rightarrow> Inl e
          | Inr dt' \<Rightarrow> add_children dt' pk parent_prob total_prob cs))"

text \<open>
  The loop \<^verbatim>\<open>while queue\<close> that mirrors the end-flagged nodes below one child of the
  root and attaches the normalised probabilities, with fuel.
\<close>

fun bfs_probs ::
  "nat \<Rightarrow> ScenarioData tree \<Rightarrow> ScenarioData node list \<Rightarrow> out_data tree \<Rightarrow> (error + out_data tree) option" where
  "bfs_probs fuel t [] dt = Some (Inr dt)"
| "bfs_probs 0 t (cur_node # queue) dt = None"
| "bfs_probs (Suc f) t (cur_node # queue) dt =
     (case get_node dt (key cur_node) of
        None \<Rightarrow> Some (Inl KeyError)
      | Some dn \<Rightarrow>
         (case lookup_all t (children_keys cur_node) of
            Inl e \<Rightarrow> Some (Inl e)
          | Inr kids \<Rightarrow>
             (let ekids = filter (\<lambda>c. end_flag (node_data c)) kids in
              case total_scen_prob ekids of
                Inl e \<Rightarrow> Some (Inl e)
              | Inr total_prob \<Rightarrow>
                 (case add_children dt (key cur_node) (prob (node_data dn)) total_prob ekids of
                    Inl e \<Rightarrow> Some (Inl e)
                  | Inr dt' \<Rightarrow> bfs_probs f t (queue @ ekids) dt'))))"

text \<open>The loop \<^verbatim>\<open>for key in root_node.children_keys\<close> around it.\<close>

fun build_data_tree ::
  "nat \<Rightarrow> ScenarioData tree \<Rightarrow> string \<Rightarrow> string list \<Rightarrow> out_data tree \<Rightarrow> (error + out_data tree) option" where
  "build_data_tree fuel t rk [] dt = Some (Inr dt)"
| "build_data_tree fuel t rk (k # ks) dt =
     (case get_node t k of
        None \<Rightarrow> Some (Inl KeyError)
      | Some n \<Rightarrow>
         if \<not> end_flag (node_data n) then build_data_tree fuel t rk ks dt
         else
          (case add_node dt (Node (key n) (Some rk) (out1 (Some 1))) of
             Inl e \<Rightarrow> Some (Inl e)
           | Inr dt1 \<Rightarrow>
              (case bfs_probs fuel t [n] dt1 of
                 None \<Rightarrow> None
               | Some (Inl e) \<Rightarrow> Some (Inl e)
               | Some (Inr dt2) \<Rightarrow> build_data_tree fuel t rk ks dt2)))"

text \<open>
  The second walk up from every end leaf: a node of the output tree that still holds
  its probability alone gets its own predicted segment and its goal points.
\<close>

definition attach :: "gen \<Rightarrow> pred_data \<Rightarrow> out_data \<Rightarrow> out_data" where
  "attach g pd od =
     (if segs od = None
      then (let a = obs_len g; b = int (obs_len g) + (int (END_T pd) - int (CUR_T pd))
            in od\<lparr>segs := Some (map (slice_from_to a b) (TRAJS_POS_HIST pd),
                                  map (slice_from_to a b) (TRAJS_COV_HIST pd),
                                  TGT_PTS pd)\<rparr>)
      else od)"

fun attach_up ::
  "gen \<Rightarrow> nat \<Rightarrow> ScenarioData tree \<Rightarrow> string \<Rightarrow> out_data tree \<Rightarrow> (error + out_data tree) option" where
  "attach_up g fuel t k dt =
     (case get_node t k of
        None \<Rightarrow> Some (Inl KeyError)
      | Some n \<Rightarrow>
         (case parent_key n of
            None \<Rightarrow> Some (Inr dt)
          | Some p \<Rightarrow>
             (case data (node_data n) of
                None \<Rightarrow> Some (Inl TypeError)
              | Some pd \<Rightarrow>
                 (case get_node dt k of
                    None \<Rightarrow> Some (Inl AttributeError)
                  | Some dn \<Rightarrow>
                     (case fuel of
                        0 \<Rightarrow> None
                      | Suc f \<Rightarrow>
                         attach_up g f t p
                           (map (\<lambda>m. if key m = k then m\<lparr>node_data := attach g pd (node_data m)\<rparr> else m) dt))))))"

fun attach_all ::
  "gen \<Rightarrow> nat \<Rightarrow> ScenarioData tree \<Rightarrow> string list \<Rightarrow> out_data tree \<Rightarrow> (error + out_data tree) option" where
  "attach_all g fuel t [] dt = Some (Inr dt)"
| "attach_all g fuel t (k # ks) dt =
     (case attach_up g fuel t k dt of
        None \<Rightarrow> None
      | Some (Inl e) \<Rightarrow> Some (Inl e)
      | Some (Inr dt') \<Rightarrow> attach_all g fuel t ks dt')"

text \<open>
  The last loops: every child of the output tree's root becomes the root of a scenario
  tree of its own, filled breadth-first with its descendants.
\<close>

fun add_copies :: "out_data tree \<Rightarrow> string \<Rightarrow> out_data node list \<Rightarrow> error + out_data tree" where
  "add_copies st pk [] = Inr st"
| "add_copies st pk (c # cs) =
     (case add_node st (Node (key c) (Some pk) (node_data c)) of
        Inl e \<Rightarrow> Inl e
      | Inr st' \<Rightarrow> add_copies st' pk cs)"

fun copy_bfs ::
  "nat \<Rightarrow> out_data tree \<Rightarrow> out_data node list \<Rightarrow> out_data tree \<Rightarrow> (error + out_data tree) option" where
  "copy_bfs fuel dt [] st = Some (Inr st)"
| "copy_bfs 0 dt (cur_node # queue) st = None"
| "copy_bfs (Suc f) dt (cur_node # queue) st =
     (case lookup_all dt (children_keys cur_node) of
        Inl e \<Rightarrow> Some (Inl e)
      | Inr kids \<Rightarrow>
         (case add_copies st (key cur_node) kids of
            Inl e \<Rightarrow> Some (Inl e)
          | Inr st' \<Rightarrow> copy_bfs f dt (queue @ kids) st'))"

fun split_trees :: "nat \<Rightarrow> out_data tree \<Rightarrow> string list \<Rightarrow> (error + out_data tree list) option" where
  "split_trees fuel dt [] = Some (Inr [])"
| "split_trees fuel dt (k # ks) =
     (case get_node dt k of
        None \<Rightarrow> Some (Inl KeyError)
      | Some n \<Rightarrow>
         (case add_node [] (Node (key n) None (node_data n)) of
            Inl e \<Rightarrow> Some (Inl e)
          | Inr st0 \<Rightarrow>
             (case copy_bfs fuel dt [n] st0 of
                None \<Rightarrow> None
              | Some (Inl e) \<Rightarrow> Some (Inl e)
              | Some (Inr st) \<Rightarrow>
                 (case split_trees fuel dt ks of
                    None \<Rightarrow> None
                  | Some (Inl e) \<Rightarrow> Some (Inl e)
                  | Some (Inr sts) \<Rightarrow> Some (Inr (st # sts))))))"

text \<open>
  \<^verbatim>\<open>get_scenario_tree\<close>. A walk or a queue that needs more steps than the tree has nodes
  is in a cycle and never ends: the fuel of every loop is the number of nodes.
\<close>

definition get_scenario_tree :: "gen \<Rightarrow> (error + out_data tree list) option" where
  "get_scenario_tree g =
     (case get_root (tree g) of
        None \<Rightarrow> Some (Inl AttributeError)
      | Some root_node \<Rightarrow>
         (case add_node [] (Node (key root_node) None (out1 (Some 1))) of
            Inl e \<Rightarrow> Some (Inl e)
          | Inr dt0 \<Rightarrow>
             (case mark_all (length (tree g)) (tree g) (map key (get_end_set g)) of
                None \<Rightarrow> None
              | Some (Inl e) \<Rightarrow> Some (Inl e)
              | Some (Inr t) \<Rightarrow>
                 (case build_data_tree (length t) t (key root_node) (children_keys root_node) dt0 of
                    None \<Rightarrow> None
                  | Some (Inl e) \<Rightarrow> Some (Inl e)
                  | Some (Inr dt1) \<Rightarrow>
                     (case attach_all g (length t) t (map key (get_end_set (g\<lparr>tree := t\<rparr>))) dt1 of
                        None \<Rightarrow> None
                      | Some (Inl e) \<Rightarrow> Some (Inl e)
                      | Some (Inr dt2) \<Rightarrow>
                         (case get_root dt2 of
                            None \<Rightarrow> Some (Inl AttributeError)
                          | Some r \<Rightarrow> split_trees (length dt2) dt2 (children_keys r)))))))"

section \<open>The top-level call\<close>

text \<open>
  What \<^verbatim>\<open>process_data\<close> reads: the result of \<^verbatim>\<open>get_agent_trajectories\<close> and the ego's
  current speed.
\<close>

record sample =
  smp_pos :: "vec2 list list"
  smp_ang :: "real list list"
  smp_vel :: "vec2 list list"
  smp_type :: "real list list"
  smp_flags :: "real list list"
  smp_tid :: "string list"
  smp_cat :: "string list"
  smp_cur_vel :: real

definition process_data :: "gen \<Rightarrow> sample \<Rightarrow> error + obs_data" where
  "process_data g sm =
     (if smp_pos sm = [] \<or> smp_ang sm = [] then Inl IndexError
      else
       (case get_origin_rotation g (hd (smp_pos sm)) (hd (smp_ang sm)) of (orig_seq, rot_seq, theta_seq) \<Rightarrow>
          let trajs_pos = map (map (\<lambda>p. matmul (vsub p orig_seq) rot_seq)) (smp_pos sm);
              trajs_ang = map (map (\<lambda>x. x - theta_seq)) (smp_ang sm);
              trajs_vel = map (map (\<lambda>v. matmul v rot_seq)) (smp_vel sm);
              frames = map (agent_frame g) (zip trajs_pos (zip trajs_ang trajs_vel))
          in (case get_high_level_command g orig_seq rot_seq (smp_cur_vel sm) of
                Inl e \<Rightarrow> Inl e
              | Inr (tgt_pts, tgt_nodes, tgt_anch) \<Rightarrow>
                  Inr \<lparr>SCEN_PROB = 1, CUR_T = 0, END_T = 0, PARENT_ID = None, SCEN_ID = [],
                       TRAJS_TYPE = smp_type sm, TRAJS_TID = smp_tid sm, TRAJS_CAT = smp_cat sm,
                       TRAJS_POS_HIST = [], TRAJS_COV_HIST = [], TRAJS_ANG_HIST = [],
                       TRAJS_VEL_HIST = [], TGT_PTS = tgt_pts,
                       ORIG = orig_seq, ROT = rot_seq,
                       TRAJS_POS_OBS = map (\<lambda>(p, a, v, c, d). p) frames,
                       TRAJS_ANG_OBS = map (\<lambda>(p, a, v, c, d). map (\<lambda>x. (cos x, sin x)) a) frames,
                       TRAJS_VEL_OBS = map (\<lambda>(p, a, v, c, d). v) frames,
                       PAD_OBS = smp_flags sm,
                       TRAJS_CTRS = map (\<lambda>(p, a, v, c, d). c) frames,
                       TRAJS_VECS = map (\<lambda>(p, a, v, c, d). d) frames,
                       TGT_NODES = tgt_nodes, TGT_ANCH = tgt_anch\<rparr>)))"

text \<open>
  The expansion part of \<^verbatim>\<open>branch_aime\<close>: \<^verbatim>\<open>process_data\<close>, \<^verbatim>\<open>init_scenario_tree\<close> and the
  loop with \<open>n\<close> rounds of fuel.
\<close>

definition expand :: "nat \<Rightarrow> gen \<Rightarrow> sample \<Rightarrow> (error + gen) option" where
  "expand n g sm =
     (case process_data g sm of
        Inl e \<Rightarrow> Some (Inl e)
      | Inr d \<Rightarrow>
         (case init_scenario_tree g d of
            Inl e \<Rightarrow> Some (Inl e)
          | Inr g1 \<Rightarrow> aime_loop n (get_branch_set g1)))"

text \<open>
  \<^verbatim>\<open>branch_aime(lcl_smp, agent_obs)\<close>: after the loop,
  \<^verbatim>\<open>assert len(self.get_end_set()) > 0\<close>, then \<^verbatim>\<open>return self.get_scenario_tree()\<close>.
\<close>

definition branch_aime :: "nat \<Rightarrow> gen \<Rightarrow> sample \<Rightarrow> (error + out_data tree list) option" where
  "branch_aime n g sm =
     (case expand n g sm of
        None \<Rightarrow> None
      | Some (Inl e) \<Rightarrow> Some (Inl e)
      | Some (Inr g') \<Rightarrow>
          if get_end_set g' = [] then Some (Inl AssertionError) else get_scenario_tree g')"

section \<open>Example inputs\<close>

text \<open>Three candidates with one non-ego agent: the second is merged into the first.\<close>

definition ex_payload :: pred_data where
  "ex_payload = \<lparr>SCEN_PROB = 1 / 2, CUR_T = 0, END_T = 4, PARENT_ID = Some ''root'',
                  SCEN_ID = ''0_0_0'', TRAJS_TYPE = [], TRAJS_TID = [], TRAJS_CAT = [],
                  TRAJS_POS_HIST = [[(0, 0), (0, 0), (0, 0), (0, 0), (0, 0)]],
                  TRAJS_COV_HIST = [[1, 1, 10, 20, 20]],
                  TRAJS_ANG_HIST = [[0, 0, 0, 0, 0]],
                  TRAJS_VEL_HIST = [[(0, 0), (0, 0), (0, 0), (0, 0), (0, 0)]],
                  TGT_PTS = []\<rparr>"

definition ex_cands :: "cand list" where
  "ex_cands = [(ex_payload, 1 / 2, [Some 0]),
               (ex_payload\<lparr>SCEN_ID := ''0_0_1''\<rparr>, 1 / 4, [Some 0]),
               (ex_payload\<lparr>SCEN_ID := ''0_0_2''\<rparr>, 1 / 4, [Some (pi / 2)])]"

text \<open>Candidates that are pairwise distinguishable, each from all later ones.\<close>

fun all_distinguishable :: "cand list \<Rightarrow> bool" where
  "all_distinguishable [] = True"
| "all_distinguishable (c # cs) =
     (list_all (\<lambda>d. distinguishable (snd (snd c)) (snd (snd d))) cs \<and> all_distinguishable cs)"

text \<open>
  Collaborators for the examples: the frame of the latest pose, the bearing of a
  vector, the largest parameter, and the distance to the nearest point of a polyline.
\<close>

definition latest_pose :: "vec2 list \<Rightarrow> real list \<Rightarrow> vec2 \<times> mat2 \<times> real" where
  "latest_pose ps an =
     (let th = (if an = [] then 0 else last an)
      in ((if ps = [] then (0, 0) else last ps), ((cos th, - sin th), (sin th, cos th)), th))"

definition seg_dist :: "vec2 \<Rightarrow> vec2 \<times> vec2 \<Rightarrow> real" where
  "seg_dist p ab =
     (let a = fst ab; b = snd ab; d = vsub b a; len2 = fst d * fst d + snd d * snd d;
          s = (if len2 = 0 then 0
               else max 0 (min 1 ((fst (vsub p a) * fst d + snd (vsub p a) * snd d) / len2)))
      in vnorm (vsub p (fst a + s * fst d, snd a + s * snd d)))"

definition polyline_dist :: "vec2 list \<Rightarrow> vec2 \<Rightarrow> real" where
  "polyline_dist lane p =
     (case map (seg_dist p) (zip (butlast lane) (tl lane)) of
        [] \<Rightarrow> (case lane of [] \<Rightarrow> 0 | q # r \<Rightarrow> vnorm (vsub p q))
      | x # xs \<Rightarrow> foldr min xs x)"

definition ex_lane :: "vec2 list" where
  "ex_lane = [(0, 0), (1, 0), (2, 0), (3, 0), (4, 0), (5, 0), (6, 0), (7, 0), (8, 0), (9, 0), (10, 0)]"

text \<open>
  A generator with one observed step, a horizon of four steps, a straight target
  lane of eleven points, and a network that answers nothing.
\<close>

definition ex_gen :: gen where
  "ex_gen = \<lparr>obs_len = 1, pred_len = 4, max_depth = 3, tar_dist_thres = 10, tar_time_ahead = 3,
             tree = [], target_lane = Some ex_lane,
             target_lane_info = map (\<lambda>p. []) ex_lane,
             ego_idx = Some 0, branch_depth = 0,
             network = (\<lambda>batch. []),
             get_origin_rotation = latest_pose,
             get_angle = (\<lambda>v. atan2 (snd v) (fst v)),
             get_max_covariance = (\<lambda>c. foldr max c 0),
             get_distance_to_polyline = polyline_dist\<rparr>"

text \<open>A payload whose covariance jumps tenfold at history index 3, and a leaf holding it.\<close>

definition ex_payload2 :: pred_data where
  "ex_payload2 = ex_payload\<lparr>TRAJS_COV_HIST := [[1, 1, 1, 10, 10]]\<rparr>"

definition ex_leaf :: "pred_data \<Rightarrow> ScenarioData node" where
  "ex_leaf pd = \<lparr>key = SCEN_ID pd, parent_key = PARENT_ID pd, children_keys = [], depth = 1,
                 node_data = fresh_data pd\<rparr>"

text \<open>
  Some agent's covariance quotient, step \<open>t\<close> over the comparison step, exceeds 9.
\<close>

definition grows_at :: "gen \<Rightarrow> pred_data \<Rightarrow> nat \<Rightarrow> bool" where
  "grows_at g pd t =
     (case col (TRAJS_COV_HIST pd) (obs_len g + t) of
        Inl e \<Rightarrow> False
      | Inr now \<Rightarrow>
          (case col (TRAJS_COV_HIST pd) (compare_step g pd) of
             Inl e \<Rightarrow> False
           | Inr ref \<Rightarrow> cov_grows now ref))"

text \<open>
  The comparison step in the words of the claim C6: the observation boundary itself
  in the first round, one step after it in the later rounds; and the branch time
  computed with it.
\<close>

definition claimed_compare_step :: "gen \<Rightarrow> pred_data \<Rightarrow> nat" where
  "claimed_compare_step g pd =
     (if CUR_T pd = 0 then obs_len g + CUR_T pd else obs_len g + CUR_T pd + 1)"

definition claimed_branch_time :: "gen \<Rightarrow> pred_data \<Rightarrow> error + (nat \<times> pred_data)" where
  "claimed_branch_time g pd =
     (case branch_scan (obs_len g) (TRAJS_COV_HIST pd) (claimed_compare_step g pd)
             [CUR_T pd + 1 ..< END_T pd] of
        Inl e \<Rightarrow> Inl e
      | Inr (Some t) \<Rightarrow> Inr (t, pd\<lparr>END_T := t\<rparr>)
      | Inr None \<Rightarrow> Inr (END_T pd, pd))"

text \<open>
  Two payloads that agree on every entry but \<^verbatim>\<open>END_T\<close> and the four history buffers;
  two nodes that agree on key, parent, children and depth and whose payloads agree so.
\<close>

definition same_but_end_hist :: "pred_data \<Rightarrow> pred_data \<Rightarrow> bool" where
  "same_but_end_hist pd pd' =
     (pd' = pd\<lparr>END_T := END_T pd', TRAJS_POS_HIST := TRAJS_POS_HIST pd',
                TRAJS_COV_HIST := TRAJS_COV_HIST pd', TRAJS_ANG_HIST := TRAJS_ANG_HIST pd',
                TRAJS_VEL_HIST := TRAJS_VEL_HIST pd'\<rparr>)"

definition node_frame :: "ScenarioData node \<Rightarrow> ScenarioData node \<Rightarrow> bool" where
  "node_frame n n' =
     (key n' = key n \<and> parent_key n' = parent_key n \<and> children_keys n' = children_keys n
      \<and> depth n' = depth n
      \<and> (case data (node_data n) of
            None \<Rightarrow> data (node_data n') = None
          | Some pd \<Rightarrow> (case data (node_data n') of
                          None \<Rightarrow> False
                        | Some pd' \<Rightarrow> same_but_end_hist pd pd')))"

text \<open>
  Four leaves: one branch-ready, one ended, one at the depth limit, one to be checked.
\<close>

definition ex_leaves :: "ScenarioData tree" where
  "ex_leaves =
     [(ex_leaf ex_payload)\<lparr>node_data := (fresh_data ex_payload)\<lparr>branch_flag := True\<rparr>\<rparr>,
      (ex_leaf (ex_payload\<lparr>SCEN_ID := ''0_0_1''\<rparr>))
         \<lparr>node_data := (fresh_data (ex_payload\<lparr>SCEN_ID := ''0_0_1''\<rparr>))\<lparr>end_flag := True\<rparr>\<rparr>,
      (ex_leaf (ex_payload\<lparr>SCEN_ID := ''0_0_2''\<rparr>))\<lparr>depth := 3\<rparr>,
      ex_leaf (ex_payload\<lparr>SCEN_ID := ''0_0_3''\<rparr>)]"

text \<open>
  A generator whose target lane has ten points only, and one whose lane of eleven
  points turns back to its first point.
\<close>

definition ex_short_gen :: gen where
  "ex_short_gen = set_target_lane ex_gen (take 10 ex_lane) (map (\<lambda>p. []) (take 10 ex_lane))"



section \<open>A run of the generator\<close>

text \<open>
  A run of the generator on a two-agent scene: one observed step, a horizon of six
  steps, depth limit three. The ego stays at the origin of a straight lane; the
  other agent starts one metre ahead. The network is a table on the scenario
  identifier of the observation window it is asked about: three modes at the root
  (the agent stays, turns left, turns right; the turns with a covariance that
  jumps at the third step), two modes of equal weight everywhere else, with the
  covariances \<open>late\<close> below the left turn.
\<close>

definition six :: "'a \<Rightarrow> 'a list" where
  "six x = [x, x, x, x, x, x]"

definition turn :: "vec2 \<Rightarrow> vec2 list" where
  "turn p = [(0, 0), p, p, p, p, p]"

definition ex_mode :: "real \<Rightarrow> vec2 list \<Rightarrow> real list \<Rightarrow> mode_out" where
  "ex_mode p agent cov =
     \<lparr>res_cls = p, res_pos = [six (0, 0), agent],
      res_cov = [map (\<lambda>v. [v]) cov, map (\<lambda>v. [v]) cov],
      res_vel = [six (0, 0), six (0, 0)]\<rparr>"

definition sc_answer :: "real list \<Rightarrow> obs_data \<Rightarrow> mode_out list" where
  "sc_answer late ob =
     (if SCEN_ID ob = ''root''
      then [ex_mode (1991 / 2000) (six (0, 0)) (six 1),
            ex_mode (3 / 1000) (turn (- 1, 1)) [1, 1, 10, 10, 10, 10],
            ex_mode (3 / 2000) (turn (- 1, - 1)) [1, 1, 10, 10, 10, 10]]
      else if SCEN_ID ob = ''0_0_1''
      then [ex_mode (1 / 2) (six (0, 0)) late, ex_mode (1 / 2) (turn (- 1, - 1)) late]
      else [ex_mode (1 / 2) (six (0, 0)) (six 1), ex_mode (1 / 2) (six (0, 0)) (six 1)])"

definition sc_gen :: "real list \<Rightarrow> gen" where
  "sc_gen late = ex_gen\<lparr>pred_len := 6, network := map (sc_answer late)\<rparr>"

text \<open>The input of \<^verbatim>\<open>branch_aime\<close>, and what \<^verbatim>\<open>process_data\<close> and \<^verbatim>\<open>prepare_root_data\<close> make of it.\<close>

definition sc_sample :: sample where
  "sc_sample = \<lparr>smp_pos = [[(0, 0)], [(1, 0)]], smp_ang = [[0], [0]],
                 smp_vel = [[(0, 0)], [(0, 0)]], smp_type = [[1], [1]],
                 smp_flags = [[1], [1]], smp_tid = [''ego'', ''car''],
                 smp_cat = [''focal'', ''scored''], smp_cur_vel = 0\<rparr>"

definition idm :: mat2 where "idm = ((1, 0), (0, 1))"

definition sc_goal :: "vec2 list \<times> goal_row list \<times> (vec2 \<times> vec2 option)" where
  "sc_goal = goal_feature (0, 0) idm ex_lane (map (\<lambda>p. []) ex_lane)"

definition sc_data0 :: obs_data where
  "sc_data0 =
     \<lparr>SCEN_PROB = 1, CUR_T = 0, END_T = 0, PARENT_ID = None, SCEN_ID = [],
      TRAJS_TYPE = [[1], [1]], TRAJS_TID = [''ego'', ''car''], TRAJS_CAT = [''focal'', ''scored''],
      TRAJS_POS_HIST = [], TRAJS_COV_HIST = [], TRAJS_ANG_HIST = [],
      TRAJS_VEL_HIST = [], TGT_PTS = fst sc_goal,
      ORIG = (0, 0), ROT = idm,
      TRAJS_POS_OBS = [[(0, 0)], [(0, 0)]],
      TRAJS_ANG_OBS = [[(1, 0)], [(1, 0)]],
      TRAJS_VEL_OBS = [[(0, 0)], [(0, 0)]],
      PAD_OBS = [[1], [1]],
      TRAJS_CTRS = [(0, 0), (1, 0)],
      TRAJS_VECS = [(1, 0), (1, 0)],
      TGT_NODES = fst (snd sc_goal), TGT_ANCH = snd (snd sc_goal)\<rparr>"

definition sc_root :: obs_data where
  "sc_root = sc_data0\<lparr>SCEN_PROB := 1, CUR_T := 0, END_T := 6, PARENT_ID := None,
                       SCEN_ID := ''root'',
                       TRAJS_POS_HIST := [[(0, 0)], [(1, 0)]],
                       TRAJS_COV_HIST := [[1 / 100000], [1 / 100000]],
                       TRAJS_ANG_HIST := [[0], [0]],
                       TRAJS_VEL_HIST := [[(0, 0)], [(0, 0)]]\<rparr>"

text \<open>The generator of the run with a given search tree and branch depth.\<close>

definition sc_state :: "real list \<Rightarrow> ScenarioData tree \<Rightarrow> nat \<Rightarrow> gen" where
  "sc_state late t d = (sc_gen late)\<lparr>tree := t, branch_depth := d\<rparr>"

text \<open>
  The payload of a child of the window \<open>ob\<close>: the ego at rest, the other agent on the
  positions \<open>agent\<close>, both with the covariances \<open>cov\<close>. The three children of the root.
\<close>

definition sc_child :: "obs_data \<Rightarrow> string \<Rightarrow> real \<Rightarrow> vec2 list \<Rightarrow> real list \<Rightarrow> pred_data" where
  "sc_child ob sid p agent cov =
     \<lparr>SCEN_PROB = p * SCEN_PROB ob, CUR_T = CUR_T ob, END_T = END_T ob,
      PARENT_ID = Some (SCEN_ID ob), SCEN_ID = sid,
      TRAJS_TYPE = TRAJS_TYPE ob, TRAJS_TID = TRAJS_TID ob, TRAJS_CAT = TRAJS_CAT ob,
      TRAJS_POS_HIST = [(0, 0) # six (0, 0), agent],
      TRAJS_COV_HIST = [cov, cov],
      TRAJS_ANG_HIST = [0 # six 0, 0 # six 0],
      TRAJS_VEL_HIST = [(0, 0) # six (0, 0), (0, 0) # six (0, 0)],
      TGT_PTS = TGT_PTS ob\<rparr>"

definition jump_cov :: "real list" where
  "jump_cov = [1 / 100000, 100001 / 100000, 100001 / 100000, 1000001 / 100000,
               1000001 / 100000, 1000001 / 100000, 1000001 / 100000]"

definition sc_X :: pred_data where
  "sc_X = sc_child sc_root ''0_0_0'' (1991 / 2000) ((1, 0) # six (1, 0))
            (1 / 100000 # six (100001 / 100000))"

definition sc_A0 :: pred_data where
  "sc_A0 = sc_child sc_root ''0_0_1'' (3 / 1000)
             ((1, 0) # (1, 0) # [(0, 1), (0, 1), (0, 1), (0, 1), (0, 1)]) jump_cov"

definition sc_B0 :: pred_data where
  "sc_B0 = sc_child sc_root ''0_0_2'' (3 / 2000)
             ((1, 0) # (1, 0) # [(0, - 1), (0, - 1), (0, - 1), (0, - 1), (0, - 1)]) jump_cov"

text \<open>A payload cut to three steps, and the observation window taken from a payload.\<close>

definition sc_cut :: "pred_data \<Rightarrow> nat \<Rightarrow> pred_data" where
  "sc_cut pd t = pd\<lparr>END_T := t,
                    TRAJS_POS_HIST := map (take 3) (TRAJS_POS_HIST pd),
                    TRAJS_COV_HIST := map (take 3) (TRAJS_COV_HIST pd),
                    TRAJS_ANG_HIST := map (take 3) (TRAJS_ANG_HIST pd),
                    TRAJS_VEL_HIST := map (take 3) (TRAJS_VEL_HIST pd)\<rparr>"

definition sc_obs :: "real list \<Rightarrow> pred_data \<Rightarrow> obs_data" where
  "sc_obs late cur = obs_window (sc_gen late) cur sc_goal"

text \<open>
  The nodes of the search tree and the three states a payload's node is in: ended,
  branch-ready (with \<^verbatim>\<open>terminate_flag\<close> as given), and visited while branch-ready.
\<close>

definition sc_rootn :: "string list \<Rightarrow> ScenarioData node" where
  "sc_rootn ch = \<lparr>key = ''root'', parent_key = None, children_keys = ch, depth = 0,
                  node_data = root_data0 sc_root\<rparr>"

definition sc_leaf :: "string \<Rightarrow> string \<Rightarrow> string list \<Rightarrow> nat \<Rightarrow> ScenarioData \<Rightarrow> ScenarioData node" where
  "sc_leaf k p ch dep d = \<lparr>key = k, parent_key = Some p, children_keys = ch, depth = dep,
                           node_data = d\<rparr>"

definition st_end :: "pred_data \<Rightarrow> ScenarioData" where
  "st_end pd = \<lparr>data = Some pd, obs_data = None, branch_flag = False, end_flag = True,
                terminate_flag = False\<rparr>"

definition st_armed :: "real list \<Rightarrow> pred_data \<Rightarrow> bool \<Rightarrow> ScenarioData" where
  "st_armed late pd tf = \<lparr>data = Some pd, obs_data = Some (sc_obs late pd), branch_flag = True,
                          end_flag = False, terminate_flag = tf\<rparr>"

definition st_done :: "real list \<Rightarrow> pred_data \<Rightarrow> ScenarioData" where
  "st_done late pd = \<lparr>data = Some pd, obs_data = Some (sc_obs late pd), branch_flag = False,
                      end_flag = False, terminate_flag = True\<rparr>"

definition sc_tree0 :: "real list \<Rightarrow> ScenarioData tree" where
  "sc_tree0 late =
     [sc_rootn [''0_0_0'', ''0_0_1'', ''0_0_2''],
      sc_leaf ''0_0_0'' ''root'' [] 1 (st_end sc_X),
      sc_leaf ''0_0_1'' ''root'' [] 1 (st_armed late (sc_cut sc_A0 2) False),
      sc_leaf ''0_0_2'' ''root'' [] 1 (st_armed late (sc_cut sc_B0 2) False)]"

text \<open>The windows of the two turns, and the two children of the left turn.\<close>

definition sc_obA :: "real list \<Rightarrow> obs_data" where
  "sc_obA late = sc_obs late (sc_cut sc_A0 2)"

definition sc_obB :: "real list \<Rightarrow> obs_data" where
  "sc_obB late = sc_obs late (sc_cut sc_B0 2)"

definition sc_late :: "real \<Rightarrow> real list" where
  "sc_late x = [0, 0, 0, 0, x, x]"

definition sc_covG :: "real \<Rightarrow> real list" where
  "sc_covG x = [100001 / 100000, 100001 / 100000, 100001 / 100000, 100001 / 100000,
                100001 / 100000, max x 0 + 100001 / 100000, max x 0 + 100001 / 100000]"

definition sc_G1 :: "real \<Rightarrow> pred_data" where
  "sc_G1 x = sc_child (sc_obA (sc_late x)) ''1_0_0'' (1 / 2) ((0, 1) # six (0, 1)) (sc_covG x)"

definition sc_G2 :: "real \<Rightarrow> pred_data" where
  "sc_G2 x = sc_child (sc_obA (sc_late x)) ''1_0_1'' (1 / 2)
               [(0, 1), (0, 1), (- 1, 0), (- 1, 0), (- 1, 0), (- 1, 0), (- 1, 0)] (sc_covG x)"

text \<open>The search tree from the first round on, by the states of its three open leaves.\<close>

definition sc_tree :: "real \<Rightarrow> ScenarioData \<Rightarrow> ScenarioData \<Rightarrow> ScenarioData \<Rightarrow> ScenarioData tree" where
  "sc_tree x bd gd1 gd2 =
     [sc_rootn [''0_0_0'', ''0_0_1'', ''0_0_2''],
      sc_leaf ''0_0_0'' ''root'' [] 1 (st_end sc_X),
      sc_leaf ''0_0_1'' ''root'' [''1_0_0'', ''1_0_1''] 1 (st_armed (sc_late x) (sc_cut sc_A0 2) False),
      sc_leaf ''0_0_2'' ''root'' [] 1 bd,
      sc_leaf ''1_0_0'' ''0_0_1'' [] 2 gd1,
      sc_leaf ''1_0_1'' ''0_0_1'' [] 2 gd2]"

text \<open>
  With \<open>late = sc_late 10\<close>: the cut payloads of the right turn and of the two
  children of the left turn, the two search trees the rounds alternate between,
  and their branch sets.
\<close>

definition sc_cB :: pred_data where "sc_cB = sc_cut sc_B0 2"
definition sc_cG1 :: pred_data where "sc_cG1 = sc_cut (sc_G1 10) 4"
definition sc_cG2 :: pred_data where "sc_cG2 = sc_cut (sc_G2 10) 4"

definition sc_P :: "ScenarioData tree" where
  "sc_P = sc_tree 10 (st_armed (sc_late 10) sc_cB True) (st_done (sc_late 10) sc_cG1) (st_done (sc_late 10) sc_cG2)"

definition sc_Q :: "bool \<Rightarrow> ScenarioData tree" where
  "sc_Q tf = sc_tree 10 (st_done (sc_late 10) sc_cB) (st_armed (sc_late 10) sc_cG1 tf) (st_armed (sc_late 10) sc_cG2 tf)"

definition sc_setB :: "ScenarioData node list" where
  "sc_setB = [sc_leaf ''0_0_2'' ''root'' [] 1 (st_armed (sc_late 10) sc_cB True)]"

definition sc_setG :: "bool \<Rightarrow> ScenarioData node list" where
  "sc_setG tf = [sc_leaf ''1_0_0'' ''0_0_1'' [] 2 (st_armed (sc_late 10) sc_cG1 tf),
                 sc_leaf ''1_0_1'' ''0_0_1'' [] 2 (st_armed (sc_late 10) sc_cG2 tf)]"

section \<open>The states of a run\<close>

text \<open>
  The states \<open>(branch_nodes, generator)\<close> at the head of the loop \<^verbatim>\<open>while branch_nodes\<close> of
  \<^verbatim>\<open>branch_aime\<close> on the generator \<open>g0\<close> and the sample \<open>sm\<close>: the one that
  \<^verbatim>\<open>process_data\<close>, \<^verbatim>\<open>init_scenario_tree\<close> and the first \<^verbatim>\<open>get_branch_set\<close> leave, and
  the one that a round of the loop on a non-empty branch set leaves.
\<close>

inductive reach :: "gen \<Rightarrow> sample \<Rightarrow> ScenarioData node list \<times> gen \<Rightarrow> bool" for g0 sm where
  reach_init: "process_data g0 sm = Inr d \<Longrightarrow> init_scenario_tree g0 d = Inr g1
                \<Longrightarrow> reach g0 sm (get_branch_set g1)"
| reach_round: "reach g0 sm (bn, g) \<Longrightarrow> bn \<noteq> [] \<Longrightarrow> aime_round g bn = Inr g'
                \<Longrightarrow> reach g0 sm (get_branch_set g')"


section \<open>Facts about the example inputs\<close>

lemma ex_gen_fields:
  "obs_len ex_gen = 1" "pred_len ex_gen = 4" "max_depth ex_gen = 3"
  "target_lane ex_gen = Some ex_lane" "tar_time_ahead ex_gen = 3"
  "target_lane_info ex_gen = map (\<lambda>p. []) ex_lane"
  "get_origin_rotation ex_gen = latest_pose"
  by (simp_all add: ex_gen_def)

section \<open>Properties of the merge step\<close>

lemma merge_select_subset: "set (merge_select cs) \<subseteq> set cs"
  by (induction cs rule: merge_select.induct) auto

lemma merge_select_all_distinguishable: "all_distinguishable (merge_select cs)"
proof (induction cs rule: merge_select.induct)
  case 1
  show ?case by simp
next
  case (2 c cs)
  let ?P = "\<lambda>d. distinguishable (snd (snd c)) (snd (snd d))"
  have "set (merge_select (filter ?P cs)) \<subseteq> set (filter ?P cs)"
    by (rule merge_select_subset)
  then have "list_all ?P (merge_select (filter ?P cs))"
    by (auto simp: list_all_iff)
  with 2 show ?case by simp
qed

lemma merge_select_fixed: "all_distinguishable cs \<Longrightarrow> merge_select cs = cs"
proof (induction cs)
  case Nil
  show ?case by simp
next
  case (Cons c cs)
  then have "filter (\<lambda>d. distinguishable (snd (snd c)) (snd (snd d))) cs = cs"
    by (simp add: list_all_iff)
  with Cons show ?case by simp
qed

text \<open>
  C9. The greedy merge step is idempotent: the merge loop run on the candidates that
  one run of it has kept returns the same candidates in the same order.
\<close>

theorem merge_select_idempotent: "merge_select (merge_select cs) = merge_select cs"
  by (rule merge_select_fixed) (rule merge_select_all_distinguishable)

section \<open>Properties of the branch decision\<close>

lemma ratio_exceeds_pos: "0 < b \<Longrightarrow> ratio_exceeds a b = (9 * b < a)"
  by (simp add: ratio_exceeds_def pos_less_divide_eq)

lemma branch_scan_None:
  "branch_scan ol cov c ts = Inr None \<Longrightarrow> u \<in> set ts \<Longrightarrow> even u \<Longrightarrow>
     (\<exists>a b. col cov (ol + u) = Inr a \<and> col cov c = Inr b \<and> \<not> cov_grows a b)"
  by (induction ts) (auto split: if_splits sum.splits simp: even_iff_mod_2_eq_zero)

lemma branch_scan_Some:
  "branch_scan ol cov c ts = Inr (Some t) \<Longrightarrow>
     (\<exists>pre post a b. ts = pre @ t # post \<and> even t \<and> col cov (ol + t) = Inr a \<and> col cov c = Inr b
        \<and> cov_grows a b
        \<and> (\<forall>u \<in> set pre. even u \<longrightarrow>
              (\<exists>a b. col cov (ol + u) = Inr a \<and> col cov c = Inr b \<and> \<not> cov_grows a b)))"
proof (induction ts)
  case Nil
  then show ?case by simp
next
  case (Cons x xs)
  let ?quiet = "\<lambda>u. even u \<longrightarrow>
     (\<exists>a b. col cov (ol + u) = Inr a \<and> col cov c = Inr b \<and> \<not> cov_grows a b)"
  show ?case
  proof (cases "x mod 2 = 1")
    case True
    with Cons.prems have "branch_scan ol cov c xs = Inr (Some t)" by simp
    from Cons.IH[OF this] obtain pre post a b where
      h: "xs = pre @ t # post" "even t" "col cov (ol + t) = Inr a" "col cov c = Inr b"
         "cov_grows a b" "\<forall>u \<in> set pre. ?quiet u"
      by blast
    have "x # xs = (x # pre) @ t # post" using h by simp
    moreover have "\<forall>u \<in> set (x # pre). ?quiet u"
      using h(6) True by (auto simp: even_iff_mod_2_eq_zero)
    ultimately show ?thesis using h by blast
  next
    case False
    then obtain a b where ab: "col cov (ol + x) = Inr a" "col cov c = Inr b"
      using Cons.prems by (auto split: sum.splits)
    show ?thesis
    proof (cases "cov_grows a b")
      case True
      with Cons.prems False ab have "t = x" by simp
      moreover have "even x" using False by presburger
      ultimately have "x # xs = [] @ t # xs \<and> even t \<and> col cov (ol + t) = Inr a
          \<and> col cov c = Inr b \<and> cov_grows a b \<and> (\<forall>u \<in> set []. ?quiet u)"
        using ab True by simp
      then show ?thesis by blast
    next
      case g: False
      with Cons.prems False ab have "branch_scan ol cov c xs = Inr (Some t)" by simp
      from Cons.IH[OF this] obtain pre post a' b' where
        h: "xs = pre @ t # post" "even t" "col cov (ol + t) = Inr a'" "col cov c = Inr b'"
           "cov_grows a' b'" "\<forall>u \<in> set pre. ?quiet u"
        by blast
      have "x # xs = (x # pre) @ t # post" using h by simp
      moreover have "\<forall>u \<in> set (x # pre). ?quiet u"
        using h(6) ab g by auto
      ultimately show ?thesis using h by blast
    qed
  qed
qed

lemma upt_split_mem:
  assumes "[a..<b] = pre @ t # post"
  shows "a \<le> t \<and> t < b \<and> set pre = {a..<t}"
proof -
  have t: "t \<in> set [a..<b]" using assms by simp
  then have ab: "a \<le> t" "t < b" by auto
  have "sorted_wrt (<) (pre @ t # post)" using assms sorted_wrt_upt[of a b] by simp
  then have lt: "\<forall>x \<in> set pre. x < t" and gt: "\<forall>y \<in> set post. t < y"
    by (auto simp: sorted_wrt_append)
  have un: "set pre \<union> {t} \<union> set post = {a..<b}"
    using arg_cong[OF assms, of set] by auto
  have "set pre = {a..<t}"
  proof (rule set_eqI)
    fix u
    show "u \<in> set pre \<longleftrightarrow> u \<in> {a..<t}"
    proof
      assume u: "u \<in> set pre"
      then have "u \<in> {a..<b}" using un by blast
      with lt u show "u \<in> {a..<t}" by auto
    next
      assume u: "u \<in> {a..<t}"
      then have "u \<in> set pre \<union> {t} \<union> set post" using un ab by auto
      with gt u show "u \<in> set pre" by auto
    qed
  qed
  then show ?thesis using ab by simp
qed

lemma get_branch_time_earliest:
  assumes "get_branch_time g pd = Inr (t, pd')"
  shows "pd' = pd\<lparr>END_T := t\<rparr>
       \<and> (\<forall>u. CUR_T pd < u \<and> u < t \<and> u < END_T pd \<and> even u \<longrightarrow> \<not> grows_at g pd u)
       \<and> (t = END_T pd \<or> (CUR_T pd < t \<and> t < END_T pd \<and> even t \<and> grows_at g pd t))"
proof (cases "branch_scan (obs_len g) (TRAJS_COV_HIST pd) (compare_step g pd) [CUR_T pd + 1 ..< END_T pd]")
  case (Inl e)
  with assms show ?thesis by (simp add: get_branch_time_def)
next
  case (Inr r)
  show ?thesis
  proof (cases r)
    case None
    with Inr assms have tp: "t = END_T pd" "pd' = pd" by (auto simp: get_branch_time_def)
    have "\<not> grows_at g pd u" if "CUR_T pd < u" "u < END_T pd" "even u" for u
    proof -
      have "u \<in> set [CUR_T pd + 1 ..< END_T pd]" using that by simp
      from branch_scan_None[OF Inr[unfolded None] this that(3)] obtain a' b' where
        "col (TRAJS_COV_HIST pd) (obs_len g + u) = Inr a'"
        "col (TRAJS_COV_HIST pd) (compare_step g pd) = Inr b'" "\<not> cov_grows a' b'"
        by blast
      then show ?thesis by (simp add: grows_at_def)
    qed
    then show ?thesis using tp by simp
  next
    case (Some s)
    with Inr assms have tp: "t = s" "pd' = pd\<lparr>END_T := s\<rparr>" by (auto simp: get_branch_time_def)
    from branch_scan_Some[OF Inr[unfolded Some]] obtain pre post a b where
      h: "[CUR_T pd + 1 ..< END_T pd] = pre @ s # post" "even s"
         "col (TRAJS_COV_HIST pd) (obs_len g + s) = Inr a"
         "col (TRAJS_COV_HIST pd) (compare_step g pd) = Inr b" "cov_grows a b"
         "\<forall>u \<in> set pre. even u \<longrightarrow>
            (\<exists>a b. col (TRAJS_COV_HIST pd) (obs_len g + u) = Inr a
                  \<and> col (TRAJS_COV_HIST pd) (compare_step g pd) = Inr b \<and> \<not> cov_grows a b)"
      by blast
    from upt_split_mem[OF h(1)]
    have r: "CUR_T pd + 1 \<le> s" "s < END_T pd" "set pre = {CUR_T pd + 1..<s}" by auto
    have "\<not> grows_at g pd u" if "CUR_T pd < u" "u < s" "even u" for u
    proof -
      have "u \<in> set pre" using that r by simp
      with h(6) that(3) obtain a' b' where
        "col (TRAJS_COV_HIST pd) (obs_len g + u) = Inr a'"
        "col (TRAJS_COV_HIST pd) (compare_step g pd) = Inr b'" "\<not> cov_grows a' b'"
        by blast
      then show ?thesis by (simp add: grows_at_def)
    qed
    moreover have "grows_at g pd s" using h by (simp add: grows_at_def)
    ultimately have "(\<forall>u. CUR_T pd < u \<and> u < s \<and> u < END_T pd \<and> even u \<longrightarrow> \<not> grows_at g pd u)
       \<and> (CUR_T pd < s \<and> s < END_T pd \<and> even s \<and> grows_at g pd s)"
      using r h(2) by simp
    then show ?thesis unfolding tp by blast
  qed
qed

lemma update_obser_payload: "update_obser g pd = Inr (ob, pd2) \<Longrightarrow> pd2 = cut_hist g pd"
  unfolding update_obser_def Let_def
  by (simp split: if_splits prod.splits sum.splits)

lemma decide_nodes_nth:
  "decide_nodes g tr = Inr tr' \<Longrightarrow>
     length tr' = length tr
     \<and> (\<forall>i < length tr. if children_keys (tr ! i) = []
                          then decide_leaf g (tr ! i) = Inr (tr' ! i)
                          else tr' ! i = tr ! i)"
proof (induction tr arbitrary: tr')
  case Nil
  then show ?case by simp
next
  case (Cons n ns)
  show ?case
  proof (cases "children_keys n = []")
    case True
    with Cons.prems obtain n' ns' where
      h: "decide_leaf g n = Inr n'" "decide_nodes g ns = Inr ns'" "tr' = n' # ns'"
      by (auto split: sum.splits)
    from Cons.IH[OF h(2)] True h(1) h(3) show ?thesis
      by (simp add: nth_Cons split: nat.splits)
  next
    case False
    with Cons.prems obtain ns' where
      h: "decide_nodes g ns = Inr ns'" "tr' = n # ns'"
      by (auto split: sum.splits)
    from Cons.IH[OF h(1)] False h(2) show ?thesis
      by (simp add: nth_Cons split: nat.splits)
  qed
qed

section \<open>Properties of the high-level command resolver\<close>

lemma clamp_idx_range: "11 \<le> len \<Longrightarrow> 5 \<le> clamp_idx len i \<and> clamp_idx len i + 6 \<le> len"
  by (simp add: clamp_idx_def Let_def) linarith

lemma clamp_idx_short: "len < 11 \<Longrightarrow> clamp_idx len i = 5"
  by (simp add: clamp_idx_def Let_def)

lemma index_rows_ok:
  "b \<le> length xs \<Longrightarrow> index_rows xs a b = Inr (take (b - a) (drop a xs))"
proof -
  assume b: "b \<le> length xs"
  have "map (\<lambda>i. xs ! i) [a..<b] = take (b - a) (drop a xs)"
  proof (rule nth_equalityI)
    show "length (map (\<lambda>i. xs ! i) [a..<b]) = length (take (b - a) (drop a xs))"
      using b by simp
  next
    fix i assume "i < length (map (\<lambda>i. xs ! i) [a..<b])"
    then have i: "i < b - a" by simp
    then show "map (\<lambda>i. xs ! i) [a..<b] ! i = take (b - a) (drop a xs) ! i"
      using b by (simp add: add.commute)
  qed
  with b show ?thesis by (simp add: index_rows_def)
qed

lemma seg_lengths: "length (seg_ctrs ps) = length ps - 1" "length (seg_vecs ps) = length ps - 1"
  by (simp_all add: seg_ctrs_def seg_vecs_def)


lemma goal_feature_shape:
  assumes "length info_rows = 11" "length pts = 11"
  shows "fst (goal_feature orig rot pts info_rows) = pts
       \<and> length (fst (snd (goal_feature orig rot pts info_rows))) = 10"
  using assms by (simp add: goal_feature_def Let_def seg_lengths split: option.split)

lemma resolver_eq:
  assumes lane: "target_lane g = Some lane" and info: "length (target_lane_info g) = length lane"
    and len: "11 \<le> length lane"
  shows "\<exists>i. 5 \<le> i \<and> i + 6 \<le> length lane
           \<and> get_high_level_command g orig rot v
               = Inr (goal_feature orig rot (take 11 (drop (i - 5) lane))
                        (take 11 (drop (i - 5) (target_lane_info g))))"
proof -
  define i where "i = clamp_idx (length lane)
     (walk_ahead lane (argmin (map (\<lambda>p. vnorm (vsub p orig)) lane)) (max v 0.5 * tar_time_ahead g))"
  have r: "5 \<le> i" "i + 6 \<le> length lane"
    using clamp_idx_range[OF len] by (simp_all add: i_def)
  have ne: "lane \<noteq> []" using len by auto
  let ?pts = "take 11 (drop (i - 5) lane)"
  let ?inf = "take 11 (drop (i - 5) (target_lane_info g))"
  have p: "index_rows lane (i - 5) (i + 6) = Inr ?pts"
    using index_rows_ok[of "i + 6" lane "i - 5"] r by simp
  have q: "index_rows (target_lane_info g) (i - 5) (i + 6) = Inr ?inf"
    using index_rows_ok[of "i + 6" "target_lane_info g" "i - 5"] r info by simp
  have lp: "length ?pts = 11" using r by simp
  have "get_high_level_command g orig rot v = Inr (goal_feature orig rot ?pts ?inf)"
    unfolding get_high_level_command_def lane
    apply (simp only: option.case ne if_False Let_def[of "map (\<lambda>p. vnorm (vsub p orig)) lane"]
        Let_def[of "argmin (map (\<lambda>p. vnorm (vsub p orig)) lane)"]
        Let_def[of "max v 0.5 * tar_time_ahead g"])
    apply (fold i_def)
    apply (simp only: Let_def[of i] p q sum.case lp)
    by simp
  with r show ?thesis by blast
qed

lemma resolver_ok:
  assumes lane: "target_lane g = Some lane" and info: "length (target_lane_info g) = length lane"
    and len: "11 \<le> length lane"
  shows "\<exists>i nodes anch. 5 \<le> i \<and> i + 6 \<le> length lane
           \<and> get_high_level_command g orig rot v = Inr (take 11 (drop (i - 5) lane), nodes, anch)
           \<and> length nodes = 10"
proof -
  from resolver_eq[OF assms, of orig rot v] obtain i where
    r: "5 \<le> i" "i + 6 \<le> length lane" and
    e: "get_high_level_command g orig rot v
               = Inr (goal_feature orig rot (take 11 (drop (i - 5) lane))
                        (take 11 (drop (i - 5) (target_lane_info g))))"
    by blast
  let ?pts = "take 11 (drop (i - 5) lane)"
  let ?inf = "take 11 (drop (i - 5) (target_lane_info g))"
  have lp: "length ?pts = 11" using r by simp
  have li: "length ?inf = 11" using r info by simp
  obtain a nodes anch where gf: "goal_feature orig rot ?pts ?inf = (a, nodes, anch)"
    by (cases "goal_feature orig rot ?pts ?inf") auto
  from goal_feature_shape[OF li lp, of orig rot] gf
  have sh: "a = ?pts" "length nodes = 10" by simp_all
  with r gf e show ?thesis by auto
qed

lemma resolver_whole_lane:
  assumes lane: "target_lane g = Some lane" and info: "length (target_lane_info g) = length lane"
    and len: "length lane = 11"
  shows "get_high_level_command g orig rot v = Inr (goal_feature orig rot lane (target_lane_info g))"
proof -
  from resolver_eq[OF lane info, of orig rot v] len obtain i where
    r: "5 \<le> i" "i + 6 \<le> length lane" and
    e: "get_high_level_command g orig rot v
               = Inr (goal_feature orig rot (take 11 (drop (i - 5) lane))
                        (take 11 (drop (i - 5) (target_lane_info g))))"
    by auto
  from r len have "i = 5" by simp
  with e len info show ?thesis by simp
qed

lemma resolver_short:
  assumes lane: "target_lane g = Some lane" and len: "length lane < 11"
  shows "get_high_level_command g orig rot v = Inl IndexError"
proof (cases "lane = []")
  case True
  then show ?thesis by (simp add: get_high_level_command_def lane)
next
  case False
  have "index_rows lane 0 11 = Inl IndexError" using len by (simp add: index_rows_def)
  then show ?thesis
    using False by (simp add: get_high_level_command_def lane Let_def clamp_idx_short[OF len])
qed

text \<open>
  C4 (as amended). Once a target lane with its per-point attributes has been set, the
  resolver returns, for every origin, rotation and current speed, exactly 11 lane
  points, the window of the lane around an index between 5 and the length minus 6,
  and a goal feature of exactly 10 rows, when the lane has at least 11 points; for
  a shorter lane it raises an index error at the window extraction, before the
  assertion.
\<close>

theorem resolver_window:
  assumes "target_lane g = Some lane" and "length (target_lane_info g) = length lane"
  shows "(11 \<le> length lane \<longrightarrow>
            (\<exists>i nodes anch. 5 \<le> i \<and> i + 6 \<le> length lane
               \<and> get_high_level_command g orig rot v = Inr (take 11 (drop (i - 5) lane), nodes, anch)
               \<and> length (take 11 (drop (i - 5) lane)) = 11 \<and> length nodes = 10))
       \<and> (length lane < 11 \<longrightarrow> get_high_level_command g orig rot v = Inl IndexError)"
proof (intro conjI impI)
  assume len: "11 \<le> length lane"
  from resolver_ok[OF assms len, of orig rot v] obtain i nodes anch where
    h: "5 \<le> i" "i + 6 \<le> length lane"
       "get_high_level_command g orig rot v = Inr (take 11 (drop (i - 5) lane), nodes, anch)"
       "length nodes = 10"
    by blast
  then have "length (take 11 (drop (i - 5) lane)) = 11" by simp
  with h show "\<exists>i nodes anch. 5 \<le> i \<and> i + 6 \<le> length lane
               \<and> get_high_level_command g orig rot v = Inr (take 11 (drop (i - 5) lane), nodes, anch)
               \<and> length (take 11 (drop (i - 5) lane)) = 11 \<and> length nodes = 10"
    by blast
next
  assume "length lane < 11"
  with assms(1) show "get_high_level_command g orig rot v = Inl IndexError"
    by (rule resolver_short)
qed

text \<open>
  C4 as stated fails: with a target lane of ten points set, the resolver neither
  returns 11 points nor fails with the assertion.
\<close>

theorem resolver_short_lane_counterexample:
  "target_lane ex_short_gen = Some (take 10 ex_lane)
   \<and> get_high_level_command ex_short_gen (0, 0) ((1, 0), (0, 1)) 1 = Inl IndexError"
proof -
  have l: "target_lane ex_short_gen = Some (take 10 ex_lane)"
    by (simp add: ex_short_gen_def set_target_lane_def)
  have "length (take 10 ex_lane) < 11" by simp
  from resolver_short[OF l this] l show ?thesis by simp
qed

theorem resolver_window_witness:
  "target_lane ex_gen = Some ex_lane \<and> length (target_lane_info ex_gen) = length ex_lane
   \<and> 11 \<le> length ex_lane
   \<and> (\<exists>nodes anch. get_high_level_command ex_gen (0, 0) ((1, 0), (0, 1)) 0 = Inr (ex_lane, nodes, anch)
                     \<and> length nodes = 10)
   \<and> target_lane ex_short_gen = Some (take 10 ex_lane)
   \<and> length (target_lane_info ex_short_gen) = length (take 10 ex_lane)
   \<and> length (take 10 ex_lane) < 11
   \<and> get_high_level_command ex_short_gen (3, 1) ((1, 0), (0, 1)) 2 = Inl IndexError"
proof -
  have a: "target_lane ex_gen = Some ex_lane" "length (target_lane_info ex_gen) = length ex_lane"
    by (simp_all add: ex_gen_fields)
  have len: "length ex_lane = 11" by (simp add: ex_lane_def)
  from resolver_window[OF a, of "(0, 0)" "((1, 0), (0, 1))" 0] len obtain i nodes anch where
    h: "5 \<le> i" "i + 6 \<le> length ex_lane"
       "get_high_level_command ex_gen (0, 0) ((1, 0), (0, 1)) 0 = Inr (take 11 (drop (i - 5) ex_lane), nodes, anch)"
       "length nodes = 10"
    by auto
  from h(1,2) len have "i = 5" by simp
  with h(3) len have "get_high_level_command ex_gen (0, 0) ((1, 0), (0, 1)) 0 = Inr (ex_lane, nodes, anch)"
    by simp
  with h(4) have 1: "\<exists>nodes anch. get_high_level_command ex_gen (0, 0) ((1, 0), (0, 1)) 0 = Inr (ex_lane, nodes, anch)
                     \<and> length nodes = 10" by blast
  have b: "target_lane ex_short_gen = Some (take 10 ex_lane)"
     "length (target_lane_info ex_short_gen) = length (take 10 ex_lane)"
    by (simp_all add: ex_short_gen_def set_target_lane_def)
  have s: "length (take 10 ex_lane) < 11" by simp
  from resolver_window[OF b, of "(3, 1)" "((1, 0), (0, 1))" 2] s
  have 2: "get_high_level_command ex_short_gen (3, 1) ((1, 0), (0, 1)) 2 = Inl IndexError" by blast
  from a len 1 b s 2 show ?thesis by simp
qed

section \<open>Properties of the divisions by a norm\<close>



























lemma agent_frame_vel_empty:
  "(case agent_frame g (p, a, v) of (p', a', v', c, d) \<Rightarrow> v') = [] \<longleftrightarrow> v = []"
  by (simp add: agent_frame_def split: prod.splits)

lemma update_obser_ok:
  assumes lane: "target_lane g = Some lane" "length (target_lane_info g) = length lane"
      "11 \<le> length lane"
    and ne: "TRAJS_POS_HIST pd \<noteq> []" "TRAJS_ANG_HIST pd \<noteq> []" "TRAJS_VEL_HIST pd \<noteq> []"
    and v: "slice_last (obs_len g) (hd (TRAJS_VEL_HIST (cut_hist g pd))) \<noteq> []"
  shows "\<exists>tgt. update_obser g pd = Inr (obs_window g (cut_hist g pd) tgt, cut_hist g pd)"
proof -
  let ?cur = "cut_hist g pd"
  obtain orig rot theta where sf: "scene_frame g ?cur = (orig, rot, theta)"
    by (cases "scene_frame g ?cur") auto
  have c: "TRAJS_POS_HIST ?cur \<noteq> []" "TRAJS_ANG_HIST ?cur \<noteq> []" "TRAJS_VEL_HIST ?cur \<noteq> []"
    using ne by (simp_all add: cut_hist_def Let_def)
  then obtain p ps a as w ws where
    l: "TRAJS_POS_HIST ?cur = p # ps" "TRAJS_ANG_HIST ?cur = a # as" "TRAJS_VEL_HIST ?cur = w # ws"
    by (meson list.exhaust)
  have w: "slice_last (obs_len g) w \<noteq> []" using v l by simp
  let ?vo = "map (\<lambda>(p, a, v, c, d). v) (agent_frames g ?cur)"
  have vo: "?vo \<noteq> []" "hd ?vo \<noteq> []"
    using w by (simp_all add: agent_frames_def sf l obs_hist_def agent_frame_def split: prod.splits)
  have oh: "obs_hist g (TRAJS_POS_HIST ?cur) \<noteq> []" "obs_hist g (TRAJS_ANG_HIST ?cur) \<noteq> []"
    using c by (simp_all add: obs_hist_def)
  from resolver_ok[OF lane, of orig rot "vnorm (last (hd ?vo))"] obtain tgt where
    t: "get_high_level_command g orig rot (vnorm (last (hd ?vo))) = Inr tgt" by blast
  have "update_obser g pd = Inr (obs_window g ?cur tgt, ?cur)"
    unfolding update_obser_def
    apply (simp only: Let_def oh vo if_False simp_thms sf prod.case t sum.case)
    done
  then show ?thesis by blast
qed


lemma same_but_end_hist_refl: "same_but_end_hist pd pd"
  by (simp add: same_but_end_hist_def)

lemma same_but_end_hist_END: "same_but_end_hist pd (pd\<lparr>END_T := t\<rparr>)"
  by (simp add: same_but_end_hist_def)

lemma same_but_end_hist_cut: "same_but_end_hist pd (cut_hist g (pd\<lparr>END_T := t\<rparr>))"
  by (simp add: same_but_end_hist_def cut_hist_def Let_def)

lemma get_branch_time_payload: "get_branch_time g pd = Inr (t, pd1) \<Longrightarrow> pd1 = pd\<lparr>END_T := t\<rparr>"
  using get_branch_time_earliest[of g pd t pd1] by blast

lemma decide_leaf_first_touch:
  "branch_flag (node_data l) \<Longrightarrow>
     decide_leaf g l = Inr (l\<lparr>node_data := (node_data l)\<lparr>branch_flag := False, terminate_flag := True\<rparr>\<rparr>)"
  by (simp add: decide_leaf_def Let_def)

lemma decide_leaf_ended:
  "\<not> branch_flag (node_data l) \<Longrightarrow> end_flag (node_data l) \<Longrightarrow> decide_leaf g l = Inr l"
  by (simp add: decide_leaf_def Let_def)

lemma decide_leaf_deep:
  "\<not> branch_flag (node_data l) \<Longrightarrow> \<not> end_flag (node_data l) \<Longrightarrow> max_depth g \<le> depth l \<Longrightarrow>
     decide_leaf g l = Inr (l\<lparr>node_data := (node_data l)\<lparr>terminate_flag := True\<rparr>\<rparr>)"
  by (simp add: decide_leaf_def Let_def)

lemma decide_leaf_check:
  assumes "\<not> branch_flag (node_data l)" "\<not> end_flag (node_data l)" "depth l < max_depth g"
    and "data (node_data l) = Some pd" and "get_branch_time g pd = Inr (t, pd1)"
  shows "decide_leaf g l =
           (if t < pred_len g
            then (case update_obser g pd1 of
                    Inl e \<Rightarrow> Inl e
                  | Inr (ob, pd2) \<Rightarrow>
                      Inr (l\<lparr>node_data := (node_data l)\<lparr>obs_data := Some ob, data := Some pd2,
                                                         branch_flag := True\<rparr>\<rparr>))
            else Inr (l\<lparr>node_data := (node_data l)\<lparr>data := Some pd1, end_flag := True\<rparr>\<rparr>))"
  using assms by (simp add: decide_leaf_def Let_def)

lemma decide_leaf_frame:
  assumes "decide_leaf g l = Inr l'"
  shows "node_frame l l'"
proof (cases "branch_flag (node_data l)")
  case True
  with assms decide_leaf_first_touch[OF True, of g]
  have "l' = l\<lparr>node_data := (node_data l)\<lparr>branch_flag := False, terminate_flag := True\<rparr>\<rparr>" by simp
  then show ?thesis
    by (simp add: node_frame_def same_but_end_hist_refl split: option.split)
next
  case b: False
  show ?thesis
  proof (cases "end_flag (node_data l)")
    case True
    with assms decide_leaf_ended[OF b True, of g] have "l' = l" by simp
    then show ?thesis by (simp add: node_frame_def same_but_end_hist_refl split: option.split)
  next
    case e: False
    show ?thesis
    proof (cases "max_depth g \<le> depth l")
      case True
      with assms decide_leaf_deep[OF b e True]
      have "l' = l\<lparr>node_data := (node_data l)\<lparr>terminate_flag := True\<rparr>\<rparr>" by simp
      then show ?thesis by (simp add: node_frame_def same_but_end_hist_refl split: option.split)
    next
      case False
      then have d: "depth l < max_depth g" by simp
      from assms b e False obtain pd where pd: "data (node_data l) = Some pd"
        by (cases "data (node_data l)") (simp_all add: decide_leaf_def Let_def)
      from assms b e False pd obtain t pd1 where gbt: "get_branch_time g pd = Inr (t, pd1)"
        by (cases "get_branch_time g pd") (auto simp: decide_leaf_def Let_def)
      have pd1: "pd1 = pd\<lparr>END_T := t\<rparr>" using gbt by (rule get_branch_time_payload)
      note eq = decide_leaf_check[OF b e d pd gbt]
      show ?thesis
      proof (cases "t < pred_len g")
        case True
        with eq assms obtain ob pd2 where
          u: "update_obser g pd1 = Inr (ob, pd2)"
          and l': "l' = l\<lparr>node_data := (node_data l)\<lparr>obs_data := Some ob, data := Some pd2,
                                                         branch_flag := True\<rparr>\<rparr>"
          by (cases "update_obser g pd1") auto
        from update_obser_payload[OF u] pd1 have "pd2 = cut_hist g (pd\<lparr>END_T := t\<rparr>)" by simp
        then have "same_but_end_hist pd pd2" by (simp add: same_but_end_hist_cut)
        with l' pd show ?thesis by (simp add: node_frame_def)
      next
        case False
        with eq assms have "l' = l\<lparr>node_data := (node_data l)\<lparr>data := Some pd1, end_flag := True\<rparr>\<rparr>"
          by simp
        with pd pd1 show ?thesis by (simp add: node_frame_def same_but_end_hist_END)
      qed
    qed
  qed
qed

lemma node_frame_refl: "node_frame n n"
  by (simp add: node_frame_def same_but_end_hist_refl split: option.split)

text \<open>
  C7 (as amended). \<^verbatim>\<open>get_branch_time\<close> changes \<^verbatim>\<open>END_T\<close> and nothing else of a
  payload; \<^verbatim>\<open>update_obser\<close> cuts the four history buffers and changes nothing else;
  and a branch-decision pass leaves, in every node, the key, the parent, the
  children, the depth and every entry of the payload other than \<^verbatim>\<open>END_T\<close> and the
  four history buffers (so \<^verbatim>\<open>CUR_T\<close> too) as they were.
\<close>

theorem payload_frame:
  "(get_branch_time g pd = Inr (t, pd1) \<longrightarrow> pd1 = pd\<lparr>END_T := t\<rparr>)
   \<and> (update_obser g pd = Inr (ob, pd2) \<longrightarrow> pd2 = cut_hist g pd)
   \<and> (decide_nodes g tr = Inr tr' \<longrightarrow>
        length tr' = length tr \<and> (\<forall>i < length tr. node_frame (tr ! i) (tr' ! i)))"
proof (intro conjI impI)
  assume "get_branch_time g pd = Inr (t, pd1)"
  then show "pd1 = pd\<lparr>END_T := t\<rparr>" by (rule get_branch_time_payload)
next
  assume "update_obser g pd = Inr (ob, pd2)"
  then show "pd2 = cut_hist g pd" by (rule update_obser_payload)
next
  assume "decide_nodes g tr = Inr tr'"
  then show "length tr' = length tr" using decide_nodes_nth by blast
next
  assume d: "decide_nodes g tr = Inr tr'"
  show "\<forall>i < length tr. node_frame (tr ! i) (tr' ! i)"
  proof (intro allI impI)
    fix i assume i: "i < length tr"
    from decide_nodes_nth[OF d] i
    have "if children_keys (tr ! i) = [] then decide_leaf g (tr ! i) = Inr (tr' ! i)
          else tr' ! i = tr ! i" by blast
    then show "node_frame (tr ! i) (tr' ! i)"
      by (cases "children_keys (tr ! i) = []") (simp_all add: decide_leaf_frame node_frame_refl)
  qed
qed

lemma obs_window_fields:
  "SCEN_PROB (obs_window g cur tgt) = SCEN_PROB cur"
  "SCEN_ID (obs_window g cur tgt) = SCEN_ID cur"
  "CUR_T (obs_window g cur tgt) = END_T cur"
  "END_T (obs_window g cur tgt) = pred_len g"
  "TRAJS_POS_HIST (obs_window g cur tgt) = obs_hist g (TRAJS_POS_HIST cur)"
  "TRAJS_COV_HIST (obs_window g cur tgt) = obs_hist g (TRAJS_COV_HIST cur)"
  "TRAJS_ANG_HIST (obs_window g cur tgt) = obs_hist g (TRAJS_ANG_HIST cur)"
  "TRAJS_VEL_HIST (obs_window g cur tgt) = obs_hist g (TRAJS_VEL_HIST cur)"
  "TGT_PTS (obs_window g cur tgt) = fst tgt"
  "ORIG (obs_window g cur tgt) = fst (scene_frame g cur)"
  "ROT (obs_window g cur tgt) = fst (snd (scene_frame g cur))"
  "TRAJS_CTRS (obs_window g cur tgt) = map (\<lambda>(p, a, v, c, d). c) (agent_frames g cur)"
  "TRAJS_VECS (obs_window g cur tgt) = map (\<lambda>(p, a, v, c, d). d) (agent_frames g cur)"
  by (simp_all add: obs_window_def pred_data.defs obs_data.defs split: prod.splits)

lemma update_obser_window:
  assumes "update_obser g pd = Inr (ob, pd2)"
  shows "\<exists>tgt. ob = obs_window g (cut_hist g pd) tgt \<and> pd2 = cut_hist g pd"
proof -
  let ?cur = "cut_hist g pd"
  obtain orig rot theta where sf: "scene_frame g ?cur = (orig, rot, theta)"
    by (cases "scene_frame g ?cur") auto
  let ?v = "vnorm (last (hd (map (\<lambda>(p, a, v, c, d). v) (agent_frames g ?cur))))"
  have e: "(case get_high_level_command g orig rot ?v of
              Inl e \<Rightarrow> Inl e
            | Inr tgt \<Rightarrow> Inr (obs_window g ?cur tgt, ?cur)) = Inr (ob, pd2)"
    using assms unfolding update_obser_def Let_def sf
    by (simp split: if_splits)
  show ?thesis
  proof (cases "get_high_level_command g orig rot ?v")
    case (Inl x)
    with e show ?thesis by simp
  next
    case (Inr tgt)
    from e have "Inr (obs_window g ?cur tgt, ?cur) = (Inr (ob, pd2) :: error + obs_data \<times> pred_data)"
      unfolding Inr by (simp only: sum.case)
    then have "(obs_window g ?cur tgt, ?cur) = (ob, pd2)" by (rule Inr_inject)
    then have "obs_window g ?cur tgt = ob" "?cur = pd2" by blast+
    then show ?thesis by blast
  qed
qed

lemma upt_1_4: "[Suc 0..<4] = [1, 2, 3]" by (simp add: upt_rec)

lemma gbt_ex: "get_branch_time ex_gen (ex_payload\<lparr>SCEN_ID := s\<rparr>) = Inr (4, ex_payload\<lparr>SCEN_ID := s\<rparr>)"
  by (simp add: get_branch_time_def compare_step_def ex_gen_fields ex_payload_def upt_1_4
      col_def cov_grows_def ratio_exceeds_def)

lemma gbt_ex0: "get_branch_time ex_gen ex_payload = Inr (4, ex_payload)"
  by (simp add: get_branch_time_def compare_step_def ex_gen_fields ex_payload_def upt_1_4
      col_def cov_grows_def ratio_exceeds_def)

lemma cbt_ex: "claimed_branch_time ex_gen ex_payload = Inr (2, ex_payload\<lparr>END_T := 2\<rparr>)"
  by (simp add: claimed_branch_time_def claimed_compare_step_def ex_gen_fields ex_payload_def upt_1_4
      col_def cov_grows_def ratio_exceeds_def)

lemma gbt_ex2: "get_branch_time ex_gen ex_payload2 = Inr (2, ex_payload2\<lparr>END_T := 2\<rparr>)"
  by (simp add: get_branch_time_def compare_step_def ex_gen_fields ex_payload_def ex_payload2_def upt_1_4
      col_def cov_grows_def ratio_exceeds_def)

lemma uo_ex2:
  "\<exists>tgt. update_obser ex_gen (ex_payload2\<lparr>END_T := 2\<rparr>)
      = Inr (obs_window ex_gen (cut_hist ex_gen (ex_payload2\<lparr>END_T := 2\<rparr>)) tgt,
             cut_hist ex_gen (ex_payload2\<lparr>END_T := 2\<rparr>))"
  by (rule update_obser_ok[where lane = ex_lane])
     (simp_all add: ex_gen_fields ex_lane_def ex_payload2_def ex_payload_def cut_hist_def
        slice_to_def slice_last_def)


lemma decide_ex_leaves:
  "decide_nodes ex_gen ex_leaves =
     Inr [(ex_leaf ex_payload)\<lparr>node_data := (fresh_data ex_payload)\<lparr>terminate_flag := True\<rparr>\<rparr>,
          (ex_leaf (ex_payload\<lparr>SCEN_ID := ''0_0_1''\<rparr>))
             \<lparr>node_data := (fresh_data (ex_payload\<lparr>SCEN_ID := ''0_0_1''\<rparr>))\<lparr>end_flag := True\<rparr>\<rparr>,
          (ex_leaf (ex_payload\<lparr>SCEN_ID := ''0_0_2''\<rparr>))
             \<lparr>depth := 3, node_data := (fresh_data (ex_payload\<lparr>SCEN_ID := ''0_0_2''\<rparr>))\<lparr>terminate_flag := True\<rparr>\<rparr>,
          (ex_leaf (ex_payload\<lparr>SCEN_ID := ''0_0_3''\<rparr>))
             \<lparr>node_data := (fresh_data (ex_payload\<lparr>SCEN_ID := ''0_0_3''\<rparr>))\<lparr>end_flag := True\<rparr>\<rparr>]"
  by (simp add: ex_leaves_def decide_leaf_def gbt_ex ex_leaf_def fresh_data_def ex_gen_fields)


lemma compare_step_eq:
  "compare_step g pd = (if CUR_T pd = 0 then obs_len g + 1 else obs_len g + CUR_T pd)"
  by (simp add: compare_step_def)

text \<open>
  C6 (as amended). \<^verbatim>\<open>get_branch_time\<close> returns the earliest even step \<open>t\<close> between
  \<^verbatim>\<open>CUR_T\<close> and \<^verbatim>\<open>END_T\<close> (both excluded) at which some agent's covariance at
  history index \<^verbatim>\<open>obs_len + t\<close>, divided by its covariance at the comparison index,
  exceeds 9, and writes it to \<^verbatim>\<open>END_T\<close>; it returns \<^verbatim>\<open>END_T\<close> when there is no such
  step. The comparison index is \<^verbatim>\<open>obs_len + CUR_T\<close>, and \<^verbatim>\<open>obs_len + 1\<close> in the first
  round (\<^verbatim>\<open>CUR_T = 0\<close>). For a checked leaf, a branch time below \<^verbatim>\<open>pred_len\<close> cuts the
  history, builds the observation window from its last \<^verbatim>\<open>obs_len\<close> steps and sets
  \<^verbatim>\<open>branch_flag\<close>; otherwise \<^verbatim>\<open>end_flag\<close> is set.
\<close>

theorem branch_time_decision:
  assumes "get_branch_time g pd = Inr (t, pd1)"
  shows "pd1 = pd\<lparr>END_T := t\<rparr>
       \<and> (\<forall>u. CUR_T pd < u \<and> u < t \<and> u < END_T pd \<and> even u \<longrightarrow> \<not> grows_at g pd u)
       \<and> (t = END_T pd \<or> (CUR_T pd < t \<and> t < END_T pd \<and> even t \<and> grows_at g pd t))
       \<and> compare_step g pd = (if CUR_T pd = 0 then obs_len g + 1 else obs_len g + CUR_T pd)
       \<and> (\<forall>l. \<not> branch_flag (node_data l) \<and> \<not> end_flag (node_data l) \<and> depth l < max_depth g
               \<and> data (node_data l) = Some pd \<longrightarrow>
             decide_leaf g l =
               (if t < pred_len g
                then (case update_obser g pd1 of
                        Inl e \<Rightarrow> Inl e
                      | Inr (ob, pd2) \<Rightarrow>
                          Inr (l\<lparr>node_data := (node_data l)\<lparr>obs_data := Some ob, data := Some pd2,
                                                             branch_flag := True\<rparr>\<rparr>))
                else Inr (l\<lparr>node_data := (node_data l)\<lparr>data := Some pd1, end_flag := True\<rparr>\<rparr>)))
       \<and> (\<forall>ob pd2. update_obser g pd1 = Inr (ob, pd2) \<longrightarrow>
             pd2 = cut_hist g pd1 \<and> CUR_T ob = t \<and> END_T ob = pred_len g
             \<and> TRAJS_POS_HIST ob = obs_hist g (TRAJS_POS_HIST pd2)
             \<and> TRAJS_COV_HIST ob = obs_hist g (TRAJS_COV_HIST pd2)
             \<and> TRAJS_ANG_HIST ob = obs_hist g (TRAJS_ANG_HIST pd2)
             \<and> TRAJS_VEL_HIST ob = obs_hist g (TRAJS_VEL_HIST pd2))"
proof -
  note e = get_branch_time_earliest[OF assms]
  have pd1: "pd1 = pd\<lparr>END_T := t\<rparr>" using e by blast
  have a: "\<forall>l. \<not> branch_flag (node_data l) \<and> \<not> end_flag (node_data l) \<and> depth l < max_depth g
               \<and> data (node_data l) = Some pd \<longrightarrow>
             decide_leaf g l =
               (if t < pred_len g
                then (case update_obser g pd1 of
                        Inl e \<Rightarrow> Inl e
                      | Inr (ob, pd2) \<Rightarrow>
                          Inr (l\<lparr>node_data := (node_data l)\<lparr>obs_data := Some ob, data := Some pd2,
                                                             branch_flag := True\<rparr>\<rparr>))
                else Inr (l\<lparr>node_data := (node_data l)\<lparr>data := Some pd1, end_flag := True\<rparr>\<rparr>))"
    using decide_leaf_check[OF _ _ _ _ assms] by blast
  have b: "\<forall>ob pd2. update_obser g pd1 = Inr (ob, pd2) \<longrightarrow>
             pd2 = cut_hist g pd1 \<and> CUR_T ob = t \<and> END_T ob = pred_len g
             \<and> TRAJS_POS_HIST ob = obs_hist g (TRAJS_POS_HIST pd2)
             \<and> TRAJS_COV_HIST ob = obs_hist g (TRAJS_COV_HIST pd2)
             \<and> TRAJS_ANG_HIST ob = obs_hist g (TRAJS_ANG_HIST pd2)
             \<and> TRAJS_VEL_HIST ob = obs_hist g (TRAJS_VEL_HIST pd2)"
  proof (intro allI impI)
    fix ob pd2 assume "update_obser g pd1 = Inr (ob, pd2)"
    from update_obser_window[OF this] obtain tgt where
      w: "ob = obs_window g (cut_hist g pd1) tgt" "pd2 = cut_hist g pd1" by blast
    have "END_T (cut_hist g pd1) = t" by (simp add: cut_hist_def Let_def pd1)
    then show "pd2 = cut_hist g pd1 \<and> CUR_T ob = t \<and> END_T ob = pred_len g
             \<and> TRAJS_POS_HIST ob = obs_hist g (TRAJS_POS_HIST pd2)
             \<and> TRAJS_COV_HIST ob = obs_hist g (TRAJS_COV_HIST pd2)
             \<and> TRAJS_ANG_HIST ob = obs_hist g (TRAJS_ANG_HIST pd2)
             \<and> TRAJS_VEL_HIST ob = obs_hist g (TRAJS_VEL_HIST pd2)"
      unfolding w by (simp add: obs_window_fields)
  qed
  from e compare_step_eq[of g pd] a b show ?thesis by blast
qed

text \<open>
  C6 as stated fails: in the first round the code compares with the step after the
  observation boundary, not with the boundary. Here the covariance at step 2 is 20
  times the one at the boundary (history indices 0 and 1) and twice the one at index
  2: the code finds no branch time, the claim's comparison finds step 2.
\<close>

theorem comparison_step_counterexample:
  "CUR_T ex_payload = 0
   \<and> get_branch_time ex_gen ex_payload = Inr (4, ex_payload)
   \<and> claimed_branch_time ex_gen ex_payload = Inr (2, ex_payload\<lparr>END_T := 2\<rparr>)"
  using gbt_ex0 cbt_ex by (simp add: ex_payload_def)

lemma ex_leaf_flags:
  "\<not> branch_flag (node_data (ex_leaf pd))" "\<not> end_flag (node_data (ex_leaf pd))"
  "depth (ex_leaf pd) = 1" "data (node_data (ex_leaf pd)) = Some pd"
  "node_data (ex_leaf pd) = fresh_data pd" "children_keys (ex_leaf pd) = []"
  by (simp_all add: ex_leaf_def fresh_data_def)

lemma fresh_flags:
  "\<not> branch_flag (fresh_data pd)" "\<not> end_flag (fresh_data pd)"
  "\<not> terminate_flag (fresh_data pd)" "data (fresh_data pd) = Some pd"
  "obs_data (fresh_data pd) = None"
  by (simp_all add: fresh_data_def)

lemma cut_ex2_cov:
  "obs_hist ex_gen (TRAJS_COV_HIST (cut_hist ex_gen (ex_payload2\<lparr>END_T := 2\<rparr>))) = [[1]]"
  "TRAJS_COV_HIST (cut_hist ex_gen (ex_payload2\<lparr>END_T := 2\<rparr>)) = [[1, 1, 1]]"
  by (simp_all add: obs_hist_def cut_hist_def ex_gen_fields ex_payload2_def ex_payload_def
      slice_to_def slice_last_def)

theorem branch_time_decision_witness:
  "get_branch_time ex_gen ex_payload2 = Inr (2, ex_payload2\<lparr>END_T := 2\<rparr>)
   \<and> grows_at ex_gen ex_payload2 2
   \<and> (\<exists>ob. decide_leaf ex_gen (ex_leaf ex_payload2)
              = Inr ((ex_leaf ex_payload2)\<lparr>node_data :=
                       (fresh_data ex_payload2)\<lparr>obs_data := Some ob,
                          data := Some (cut_hist ex_gen (ex_payload2\<lparr>END_T := 2\<rparr>)),
                          branch_flag := True\<rparr>\<rparr>)
            \<and> CUR_T ob = 2 \<and> END_T ob = 4 \<and> TRAJS_COV_HIST ob = [[1]])
   \<and> get_branch_time ex_gen ex_payload = Inr (4, ex_payload)
   \<and> decide_leaf ex_gen (ex_leaf ex_payload)
        = Inr ((ex_leaf ex_payload)\<lparr>node_data :=
                 (fresh_data ex_payload)\<lparr>data := Some ex_payload, end_flag := True\<rparr>\<rparr>)"
proof -
  note t2 = branch_time_decision[OF gbt_ex2]
  have e: "END_T ex_payload2 = 4" by (simp add: ex_payload2_def ex_payload_def)
  from t2 e have g: "grows_at ex_gen ex_payload2 2" by auto
  obtain tgt where
    u: "update_obser ex_gen (ex_payload2\<lparr>END_T := 2\<rparr>)
      = Inr (obs_window ex_gen (cut_hist ex_gen (ex_payload2\<lparr>END_T := 2\<rparr>)) tgt,
             cut_hist ex_gen (ex_payload2\<lparr>END_T := 2\<rparr>))"
    using uo_ex2 by blast
  let ?ob = "obs_window ex_gen (cut_hist ex_gen (ex_payload2\<lparr>END_T := 2\<rparr>)) tgt"
  let ?l = "ex_leaf ex_payload2"
  have "\<not> branch_flag (node_data ?l) \<and> \<not> end_flag (node_data ?l) \<and> depth ?l < max_depth ex_gen
               \<and> data (node_data ?l) = Some ex_payload2"
    by (simp add: ex_leaf_flags fresh_flags ex_gen_fields)
  with t2 have "decide_leaf ex_gen ?l =
               (if 2 < pred_len ex_gen
                then (case update_obser ex_gen (ex_payload2\<lparr>END_T := 2\<rparr>) of
                        Inl e \<Rightarrow> Inl e
                      | Inr (ob, pd2) \<Rightarrow>
                          Inr (?l\<lparr>node_data := (node_data ?l)\<lparr>obs_data := Some ob, data := Some pd2,
                                                             branch_flag := True\<rparr>\<rparr>))
                else Inr (?l\<lparr>node_data := (node_data ?l)\<lparr>data := Some (ex_payload2\<lparr>END_T := 2\<rparr>), end_flag := True\<rparr>\<rparr>))"
    by blast
  then have d: "decide_leaf ex_gen ?l
              = Inr (?l\<lparr>node_data :=
                       (fresh_data ex_payload2)\<lparr>obs_data := Some ?ob,
                          data := Some (cut_hist ex_gen (ex_payload2\<lparr>END_T := 2\<rparr>)),
                          branch_flag := True\<rparr>\<rparr>)"
    by (simp add: u ex_gen_fields ex_leaf_flags fresh_flags)
  from t2 u have f: "CUR_T ?ob = 2" "END_T ?ob = pred_len ex_gen"
     "TRAJS_COV_HIST ?ob = obs_hist ex_gen (TRAJS_COV_HIST (cut_hist ex_gen (ex_payload2\<lparr>END_T := 2\<rparr>)))"
    by blast+
  then have f': "CUR_T ?ob = 2" "END_T ?ob = 4" "TRAJS_COV_HIST ?ob = [[1]]"
    by (simp_all only: ex_gen_fields cut_ex2_cov(1))
  note t4 = branch_time_decision[OF gbt_ex0]
  let ?m = "ex_leaf ex_payload"
  have "\<not> branch_flag (node_data ?m) \<and> \<not> end_flag (node_data ?m) \<and> depth ?m < max_depth ex_gen
               \<and> data (node_data ?m) = Some ex_payload"
    by (simp add: ex_leaf_flags fresh_flags ex_gen_fields)
  with t4 have "decide_leaf ex_gen ?m =
               (if 4 < pred_len ex_gen
                then (case update_obser ex_gen ex_payload of
                        Inl e \<Rightarrow> Inl e
                      | Inr (ob, pd2) \<Rightarrow>
                          Inr (?m\<lparr>node_data := (node_data ?m)\<lparr>obs_data := Some ob, data := Some pd2,
                                                             branch_flag := True\<rparr>\<rparr>))
                else Inr (?m\<lparr>node_data := (node_data ?m)\<lparr>data := Some ex_payload, end_flag := True\<rparr>\<rparr>))"
    by blast
  then have d4: "decide_leaf ex_gen ?m
        = Inr (?m\<lparr>node_data := (fresh_data ex_payload)\<lparr>data := Some ex_payload, end_flag := True\<rparr>\<rparr>)"
    by (simp add: ex_gen_fields ex_leaf_flags fresh_flags)
  from d f' have "\<exists>ob. decide_leaf ex_gen (ex_leaf ex_payload2)
              = Inr ((ex_leaf ex_payload2)\<lparr>node_data :=
                       (fresh_data ex_payload2)\<lparr>obs_data := Some ob,
                          data := Some (cut_hist ex_gen (ex_payload2\<lparr>END_T := 2\<rparr>)),
                          branch_flag := True\<rparr>\<rparr>)
            \<and> CUR_T ob = 2 \<and> END_T ob = 4 \<and> TRAJS_COV_HIST ob = [[1]]"
    by blast
  with gbt_ex2 g gbt_ex0 d4 show ?thesis by blast
qed

text \<open>
  C7 as stated fails: \<^verbatim>\<open>get_branch_time\<close> overwrites \<^verbatim>\<open>END_T\<close> (4 becomes 2), and
  \<^verbatim>\<open>update_obser\<close> cuts the covariance history from five steps to three.
\<close>

theorem payload_mutation_counterexample:
  "get_branch_time ex_gen ex_payload2 = Inr (2, ex_payload2\<lparr>END_T := 2\<rparr>)
   \<and> END_T ex_payload2 = 4
   \<and> map_sum id snd (update_obser ex_gen (ex_payload2\<lparr>END_T := 2\<rparr>))
       = Inr (cut_hist ex_gen (ex_payload2\<lparr>END_T := 2\<rparr>))
   \<and> TRAJS_COV_HIST (cut_hist ex_gen (ex_payload2\<lparr>END_T := 2\<rparr>)) = [[1, 1, 1]]
   \<and> TRAJS_COV_HIST (ex_payload2\<lparr>END_T := 2\<rparr>) = [[1, 1, 1, 10, 10]]"
proof -
  obtain tgt where
    u: "update_obser ex_gen (ex_payload2\<lparr>END_T := 2\<rparr>)
      = Inr (obs_window ex_gen (cut_hist ex_gen (ex_payload2\<lparr>END_T := 2\<rparr>)) tgt,
             cut_hist ex_gen (ex_payload2\<lparr>END_T := 2\<rparr>))"
    using uo_ex2 by blast
  have "map_sum id snd (update_obser ex_gen (ex_payload2\<lparr>END_T := 2\<rparr>))
       = Inr (cut_hist ex_gen (ex_payload2\<lparr>END_T := 2\<rparr>))"
    unfolding u by simp
  moreover have "END_T ex_payload2 = 4" "TRAJS_COV_HIST (ex_payload2\<lparr>END_T := 2\<rparr>) = [[1, 1, 1, 10, 10]]"
    by (simp_all add: ex_payload2_def ex_payload_def)
  ultimately show ?thesis using gbt_ex2 cut_ex2_cov(2) by blast
qed

theorem payload_frame_witness:
  "get_branch_time ex_gen ex_payload2 = Inr (2, ex_payload2\<lparr>END_T := 2\<rparr>)
   \<and> (\<exists>ob. update_obser ex_gen (ex_payload2\<lparr>END_T := 2\<rparr>)
             = Inr (ob, cut_hist ex_gen (ex_payload2\<lparr>END_T := 2\<rparr>)))
   \<and> (\<exists>tr'. decide_nodes ex_gen ex_leaves = Inr tr' \<and> length tr' = length ex_leaves
          \<and> node_frame (ex_leaves ! 0) (tr' ! 0) \<and> node_frame (ex_leaves ! 3) (tr' ! 3))"
proof -
  obtain tgt where
    u: "update_obser ex_gen (ex_payload2\<lparr>END_T := 2\<rparr>)
      = Inr (obs_window ex_gen (cut_hist ex_gen (ex_payload2\<lparr>END_T := 2\<rparr>)) tgt,
             cut_hist ex_gen (ex_payload2\<lparr>END_T := 2\<rparr>))"
    using uo_ex2 by blast
  obtain tr' where d: "decide_nodes ex_gen ex_leaves = Inr tr'"
    using decide_ex_leaves by blast
  note pf = payload_frame[of ex_gen ex_payload2 2 "ex_payload2\<lparr>END_T := 2\<rparr>" _ _ ex_leaves tr']
  have len: "0 < length ex_leaves" "3 < length ex_leaves" by (simp_all add: ex_leaves_def)
  from pf d len have "length tr' = length ex_leaves"
      "node_frame (ex_leaves ! 0) (tr' ! 0)" "node_frame (ex_leaves ! 3) (tr' ! 3)"
    by blast+
  with d u gbt_ex2 show ?thesis by blast
qed

section \<open>The run, round by round\<close>

lemma sc_gen_fields:
  "obs_len (sc_gen late) = 1" "pred_len (sc_gen late) = 6" "max_depth (sc_gen late) = 3"
  "target_lane (sc_gen late) = Some ex_lane" "tar_time_ahead (sc_gen late) = 3"
  "tar_dist_thres (sc_gen late) = 10" "ego_idx (sc_gen late) = Some 0"
  "target_lane_info (sc_gen late) = map (\<lambda>p. []) ex_lane"
  "get_origin_rotation (sc_gen late) = latest_pose"
  "get_angle (sc_gen late) = (\<lambda>v. atan2 (snd v) (fst v))"
  "get_max_covariance (sc_gen late) = (\<lambda>c. foldr max c 0)"
  "get_distance_to_polyline (sc_gen late) = polyline_dist"
  "network (sc_gen late) = map (sc_answer late)"
  "seq_len (sc_gen late) = 7"
  by (simp_all add: sc_gen_def ex_gen_def seq_len_def)

lemma latest_pose_0: "latest_pose [p] [0] = (p, ((1, 0), (0, 1)), 0)"
  by (simp add: latest_pose_def)

lemma mm_id: "matmul v ((1, 0), (0, 1)) = v" "transpose2 ((1, 0), (0, 1)) = ((1, 0), (0, 1))"
  by (simp_all add: matmul_def transpose2_def)

lemma vsub0: "vsub v (0, 0) = v" "vadd v (0, 0) = v" "vadd (0, 0) v = v"
  by (simp_all add: vsub_def vadd_def)

lemma sc_resolver: "get_high_level_command (sc_gen late) orig rot v
    = Inr (goal_feature orig rot ex_lane (map (\<lambda>p. []) ex_lane))"
  using resolver_whole_lane[of "sc_gen late" ex_lane orig rot v]
  by (simp add: sc_gen_fields ex_lane_def)

lemma process_sc: "process_data (sc_gen late) sc_sample = Inr sc_data0"
  by (simp add: process_data_def sc_sample_def sc_gen_fields latest_pose_0 mm_id vsub0
      agent_frame_def sc_resolver sc_data0_def sc_goal_def vsub_def case_prod_beta idm_def)

lemma atan2_simps: "atan2 0 1 = 0" "atan2 0 0 = 0" "atan2 1 0 = pi / 2" "atan2 (- 1) 0 = - (pi / 2)"
  "atan2 0 (- 1) = pi"
  by (simp_all add: atan2_def)

lemma idm_sel: "fst (snd idm) = 0" "fst (fst idm) = 1" "snd (fst idm) = 0" "snd (snd idm) = 1"
  by (simp_all add: idm_def)

lemma rot0: "((cos 0, - sin 0), (sin 0, cos (0 :: real))) = idm"
  by (simp add: idm_def)

lemma prepare_sc: "prepare_root_data (sc_gen late) sc_data0 = Inr sc_root"
  by (simp add: prepare_root_data_def sc_data0_def sc_root_def sc_gen_fields atan2_simps mm_id vsub0
      idm_def Let_def)

lemma str_nat_digits: "str_nat 0 = ''0''" "str_nat (Suc 0) = ''1''" "str_nat 2 = ''2''"
  by (simp_all add: str_nat.simps digit_char_def)

lemma scen_ids: "scen_id 0 0 0 = ''0_0_0''" "scen_id 0 0 (Suc 0) = ''0_0_1''" "scen_id 0 0 2 = ''0_0_2''"
  "scen_id (Suc 0) 0 0 = ''1_0_0''" "scen_id (Suc 0) 0 (Suc 0) = ''1_0_1''"
  by (simp_all add: scen_id_def str_nat_digits)

lemma argsort3: "argsort_desc [1991 / 2000, 3 / 1000, 3 / 2000] = [0, 1, 2]"
  by (simp add: argsort_desc_def upt_rec)

lemma argsort2: "argsort_desc [1 / 2, 1 / 2] = [0, 1]"
  by (simp add: argsort_desc_def upt_rec)

lemma polyline_dist_origin: "polyline_dist ex_lane (0, 0) = 0"
  by (simp add: polyline_dist_def ex_lane_def seg_dist_def vsub_def vnorm_def Let_def)

lemma sc_state_fields:
  "obs_len (sc_state late t d) = 1" "pred_len (sc_state late t d) = 6" "max_depth (sc_state late t d) = 3"
  "target_lane (sc_state late t d) = Some ex_lane" "tar_time_ahead (sc_state late t d) = 3"
  "tar_dist_thres (sc_state late t d) = 10" "ego_idx (sc_state late t d) = Some 0"
  "target_lane_info (sc_state late t d) = map (\<lambda>p. []) ex_lane"
  "get_origin_rotation (sc_state late t d) = latest_pose"
  "get_angle (sc_state late t d) = (\<lambda>v. atan2 (snd v) (fst v))"
  "get_max_covariance (sc_state late t d) = (\<lambda>c. foldr max c 0)"
  "get_distance_to_polyline (sc_state late t d) = polyline_dist"
  "network (sc_state late t d) = map (sc_answer late)"
  "seq_len (sc_state late t d) = 7"
  "tree (sc_state late t d) = t" "branch_depth (sc_state late t d) = d"
  by (simp_all add: sc_state_def sc_gen_def ex_gen_def seq_len_def)

lemma cand_root_X:
  "candidate (sc_state late t 0) sc_root 0 0 (ex_mode (1991 / 2000) (six (0, 0)) (six 1))
    = Inr (Some (sc_child sc_root ''0_0_0'' (1991 / 2000) ((1, 0) # six (1, 0))
                   (1 / 100000 # six (100001 / 100000)),
                 1991 / 2000, [Some 0]))"
  apply (simp add: candidate_def sc_state_fields sc_root_def sc_data0_def ex_mode_def six_def
      atan2_simps mm_id vsub0 idm_def Let_def scen_ids polyline_dist_origin sc_child_def vadd_def
      topos_of_def topo_sig_def bearing_def unit_vec_def vnorm_def vsub_def diff_opt_def add_opt_def
      wrap_angle_def)
  done

lemmas sc_eval = candidate_def sc_state_fields ex_mode_def six_def turn_def
      atan2_simps mm_id vsub0 idm_def Let_def scen_ids polyline_dist_origin sc_child_def vadd_def
      topos_of_def topo_sig_def bearing_def unit_vec_def vnorm_def vsub_def diff_opt_def add_opt_def
      wrap_angle_def

lemma cand_root_A:
  "candidate (sc_state late t 0) sc_root 0 (Suc 0) (ex_mode (3 / 1000) (turn (- 1, 1)) [1, 1, 10, 10, 10, 10])
    = Inr (Some (sc_child sc_root ''0_0_1'' (3 / 1000) ((1, 0) # (1, 0) # [(0, 1), (0, 1), (0, 1), (0, 1), (0, 1)])
                   jump_cov,
                 3 / 1000, [Some (pi / 2)]))"
  by (simp add: sc_eval sc_root_def sc_data0_def jump_cov_def)

lemma cand_root_B:
  "candidate (sc_state late t 0) sc_root 0 2 (ex_mode (3 / 2000) (turn (- 1, - 1)) [1, 1, 10, 10, 10, 10])
    = Inr (Some (sc_child sc_root ''0_0_2'' (3 / 2000) ((1, 0) # (1, 0) # [(0, - 1), (0, - 1), (0, - 1), (0, - 1), (0, - 1)])
                   jump_cov,
                 3 / 2000, [Some (- (pi / 2))]))"
  by (simp add: sc_eval sc_root_def sc_data0_def jump_cov_def)

lemma wrap_simps: "wrap_angle 0 = 0" "wrap_angle (pi / 2) = pi / 2" "wrap_angle (- (pi / 2)) = - (pi / 2)"
  "wrap_angle pi = pi"
  by (simp_all add: wrap_angle_def atan2_simps)

lemma dist_simps:
  "distinguishable [Some 0] [Some (pi / 2)]"
  "distinguishable [Some 0] [Some (- (pi / 2))]"
  "distinguishable [Some (pi / 2)] [Some (- (pi / 2))]"
  by (simp_all add: distinguishable_def topo_differs_def wrap_simps)

lemma root_id: "SCEN_ID sc_root = ''root''" by (simp add: sc_root_def)

lemma ex_mode_cls: "res_cls (ex_mode p a c) = p" by (simp add: ex_mode_def)

lemma prune_merge_root:
  "prune_merge (sc_state late t 0) [sc_root] (network (sc_state late t 0) [sc_root])
     = Inr [sc_X, sc_A0, sc_B0]"
  by (simp add: prune_merge_def sc_state_fields sc_answer_def root_id ex_mode_cls
      argsort3 cand_root_X cand_root_A cand_root_B dist_simps sc_X_def sc_A0_def sc_B0_def)

lemma sc_state_resolver: "get_high_level_command (sc_state late t d) orig rot v
    = Inr (goal_feature orig rot ex_lane (map (\<lambda>p. []) ex_lane))"
  using resolver_whole_lane[of "sc_state late t d" ex_lane orig rot v]
  by (simp add: sc_state_fields ex_lane_def)

lemma agent_frame_state: "agent_frame (sc_state late t d) = agent_frame (sc_gen late)"
  by (rule ext) (simp add: agent_frame_def sc_state_fields sc_gen_fields)

lemma sc_window_state: "obs_window (sc_state late t d) cur tgt = obs_window (sc_gen late) cur tgt"
  by (simp add: obs_window_def scene_frame_def agent_frames_def agent_frame_state obs_hist_def
      sc_state_fields sc_gen_fields)

lemma upt_1_6: "[Suc 0..<6] = [1, 2, 3, 4, 5]" by (simp add: upt_rec)

lemma gbt_X: "get_branch_time (sc_state late t d) sc_X = Inr (6, sc_X)"
  by (simp add: get_branch_time_def compare_step_def sc_state_fields sc_X_def sc_child_def sc_root_def
      six_def upt_1_6 col_def cov_grows_def ratio_exceeds_def)

lemma gbt_A0: "get_branch_time (sc_state late t d) sc_A0 = Inr (2, sc_A0\<lparr>END_T := 2\<rparr>)"
  by (simp add: get_branch_time_def compare_step_def sc_state_fields sc_A0_def sc_child_def sc_root_def
      jump_cov_def upt_1_6 col_def cov_grows_def ratio_exceeds_def)

lemma gbt_B0: "get_branch_time (sc_state late t d) sc_B0 = Inr (2, sc_B0\<lparr>END_T := 2\<rparr>)"
  by (simp add: get_branch_time_def compare_step_def sc_state_fields sc_B0_def sc_child_def sc_root_def
      jump_cov_def upt_1_6 col_def cov_grows_def ratio_exceeds_def)

lemma uo_A0: "update_obser (sc_state late t d) (sc_A0\<lparr>END_T := 2\<rparr>)
     = Inr (sc_obs late (sc_cut sc_A0 2), sc_cut sc_A0 2)"
  apply (simp add: update_obser_def sc_state_fields sc_state_resolver sc_window_state sc_obs_def)
  apply (simp add: cut_hist_def sc_state_fields sc_A0_def sc_child_def sc_root_def sc_cut_def
      slice_to_def obs_hist_def slice_last_def six_def jump_cov_def agent_frames_def scene_frame_def
      latest_pose_0 agent_frame_def sc_goal_def idm_def Let_def sc_state_resolver sc_window_state)
  done

lemma sc_state_tree: "(sc_state late t d)\<lparr>tree := t'\<rparr> = sc_state late t' d"
  by (simp add: sc_state_def)

lemma sc_state_depth: "(sc_state late t d)\<lparr>branch_depth := d'\<rparr> = sc_state late t d'"
  by (simp add: sc_state_def)

lemma sc_reset: "reset (sc_gen late) = sc_state late [] 0"
  by (simp add: reset_def sc_state_def)

lemma prepare_state_eq: "prepare_root_data (sc_state late t d) x = prepare_root_data (sc_gen late) x"
  unfolding prepare_root_data_def sc_state_fields sc_gen_fields ..

lemma prepare_state: "prepare_root_data (sc_state late t d) sc_data0 = Inr sc_root"
  by (simp only: prepare_state_eq prepare_sc)

lemma child_ids: "SCEN_ID sc_X = ''0_0_0''" "SCEN_ID sc_A0 = ''0_0_1''" "SCEN_ID sc_B0 = ''0_0_2''"
  "PARENT_ID sc_X = Some ''root''" "PARENT_ID sc_A0 = Some ''root''" "PARENT_ID sc_B0 = Some ''root''"
  by (simp_all add: sc_X_def sc_A0_def sc_B0_def sc_child_def root_id)

lemma create_root:
  "create_nodes (sc_state late [Node ''root'' None (root_data0 sc_root)\<lparr>depth := 0\<rparr>] d) [sc_X, sc_A0, sc_B0]
    = Inr (sc_state late [sc_rootn [''0_0_0'', ''0_0_1'', ''0_0_2''],
      sc_leaf ''0_0_0'' ''root'' [] 1 (fresh_data sc_X),
      sc_leaf ''0_0_1'' ''root'' [] 1 (fresh_data sc_A0),
      sc_leaf ''0_0_2'' ''root'' [] 1 (fresh_data sc_B0)] d)"
  by (simp add: create_nodes_def sc_state_fields sc_state_tree add_node_def Node_def get_node_def
      child_ids add_child_key_def sc_rootn_def sc_leaf_def)

lemma uo_B0: "update_obser (sc_state late t d) (sc_B0\<lparr>END_T := 2\<rparr>)
     = Inr (sc_obs late (sc_cut sc_B0 2), sc_cut sc_B0 2)"
  apply (simp add: update_obser_def sc_state_fields sc_state_resolver sc_window_state sc_obs_def)
  apply (simp add: cut_hist_def sc_state_fields sc_B0_def sc_child_def sc_root_def sc_cut_def
      slice_to_def obs_hist_def slice_last_def six_def jump_cov_def agent_frames_def scene_frame_def
      latest_pose_0 agent_frame_def sc_goal_def idm_def Let_def sc_state_resolver sc_window_state)
  done

lemma leaf_sel: "node_data (sc_leaf k p ch dep x) = x" "depth (sc_leaf k p ch dep x) = dep"
  "children_keys (sc_leaf k p ch dep x) = ch" "key (sc_leaf k p ch dep x) = k"
  "parent_key (sc_leaf k p ch dep x) = Some p"
  "(sc_leaf k p ch dep x)\<lparr>node_data := y\<rparr> = sc_leaf k p ch dep y"
  by (simp_all add: sc_leaf_def)

lemma decide_X: "decide_leaf (sc_state late t d) (sc_leaf k p ch (Suc 0) (fresh_data sc_X))
    = Inr (sc_leaf k p ch (Suc 0) (st_end sc_X))"
  by (simp add: decide_leaf_def leaf_sel fresh_data_def sc_state_fields gbt_X st_end_def)

lemma decide_A0: "decide_leaf (sc_state late t d) (sc_leaf k p ch (Suc 0) (fresh_data sc_A0))
    = Inr (sc_leaf k p ch (Suc 0) (st_armed late (sc_cut sc_A0 2) False))"
  by (simp add: decide_leaf_def leaf_sel fresh_data_def sc_state_fields gbt_A0 uo_A0 st_armed_def)

lemma decide_B0: "decide_leaf (sc_state late t d) (sc_leaf k p ch (Suc 0) (fresh_data sc_B0))
    = Inr (sc_leaf k p ch (Suc 0) (st_armed late (sc_cut sc_B0 2) False))"
  by (simp add: decide_leaf_def leaf_sel fresh_data_def sc_state_fields gbt_B0 uo_B0 st_armed_def)

lemma rootn_sel: "children_keys (sc_rootn ch) = ch" "key (sc_rootn ch) = ''root''"
  "parent_key (sc_rootn ch) = None" "depth (sc_rootn ch) = 0"
  by (simp_all add: sc_rootn_def)

lemma prune_root: "prune_merge (sc_state late t 0) [sc_root] [sc_answer late sc_root]
     = Inr [sc_X, sc_A0, sc_B0]"
  using prune_merge_root[of late t] by (simp add: sc_state_fields)

lemma create_root':
  "create_nodes (sc_state late [\<lparr>key = ''root'', parent_key = None, children_keys = [],
                    depth = 0, node_data = root_data0 sc_root\<rparr>] d) [sc_X, sc_A0, sc_B0]
    = Inr (sc_state late [sc_rootn [''0_0_0'', ''0_0_1'', ''0_0_2''],
      sc_leaf ''0_0_0'' ''root'' [] (Suc 0) (fresh_data sc_X),
      sc_leaf ''0_0_1'' ''root'' [] (Suc 0) (fresh_data sc_A0),
      sc_leaf ''0_0_2'' ''root'' [] (Suc 0) (fresh_data sc_B0)] d)"
  using create_root[of late d] by (simp add: Node_def)

lemma decide_root:
  "decide_branch (sc_state late [sc_rootn [''0_0_0'', ''0_0_1'', ''0_0_2''],
      sc_leaf ''0_0_0'' ''root'' [] (Suc 0) (fresh_data sc_X),
      sc_leaf ''0_0_1'' ''root'' [] (Suc 0) (fresh_data sc_A0),
      sc_leaf ''0_0_2'' ''root'' [] (Suc 0) (fresh_data sc_B0)] d)
   = Inr (sc_state late (sc_tree0 late) d)"
  by (simp add: decide_branch_def sc_state_fields sc_state_tree rootn_sel leaf_sel
      decide_X decide_A0 decide_B0 sc_tree0_def)

lemma init_sc: "init_scenario_tree (sc_state late [] 0) sc_data0 = Inr (sc_state late (sc_tree0 late) 0)"
  by (simp add: init_scenario_tree_def prepare_state add_node_def Node_def sc_state_tree
      sc_state_fields prune_root create_root' decide_root Let_def)

lemma branch_set0: "get_branch_set (sc_state late (sc_tree0 late) 0)
    = ([sc_leaf ''0_0_1'' ''root'' [] 1 (st_armed late (sc_cut sc_A0 2) False),
        sc_leaf ''0_0_2'' ''root'' [] 1 (st_armed late (sc_cut sc_B0 2) False)],
       sc_state late (sc_tree0 late) 1)"
  by (simp add: get_branch_set_def sc_state_fields sc_state_depth get_leaf_nodes_def sc_tree0_def
      rootn_sel leaf_sel st_end_def st_armed_def)

lemma obA_fields:
  "ORIG (sc_obA late) = (0, 0)" "ROT (sc_obA late) = ((1, 0), (0, 1))"
  "TRAJS_VECS (sc_obA late) = [(1, 0), (1, 0)]" "TRAJS_CTRS (sc_obA late) = [(0, 0), (0, 1)]"
  "TRAJS_COV_HIST (sc_obA late) = [[100001 / 100000], [100001 / 100000]]"
  "TRAJS_POS_HIST (sc_obA late) = [[(0, 0)], [(0, 1)]]"
  "TRAJS_ANG_HIST (sc_obA late) = [[0], [0]]"
  "TRAJS_VEL_HIST (sc_obA late) = [[(0, 0)], [(0, 0)]]"
  "SCEN_PROB (sc_obA late) = 3 / 1000" "SCEN_ID (sc_obA late) = ''0_0_1''"
  "CUR_T (sc_obA late) = 2" "END_T (sc_obA late) = 6"
  by (simp_all add: sc_obA_def sc_obs_def obs_window_fields sc_gen_fields sc_cut_def sc_A0_def
      sc_child_def obs_hist_def slice_last_def scene_frame_def agent_frames_def agent_frame_def
      latest_pose_0 jump_cov_def root_id sc_root_def six_def mm_id vsub0)

lemma obB_fields:
  "ORIG (sc_obB late) = (0, 0)" "ROT (sc_obB late) = ((1, 0), (0, 1))"
  "TRAJS_VECS (sc_obB late) = [(1, 0), (1, 0)]" "TRAJS_CTRS (sc_obB late) = [(0, 0), (0, - 1)]"
  "TRAJS_COV_HIST (sc_obB late) = [[100001 / 100000], [100001 / 100000]]"
  "TRAJS_POS_HIST (sc_obB late) = [[(0, 0)], [(0, - 1)]]"
  "TRAJS_ANG_HIST (sc_obB late) = [[0], [0]]"
  "TRAJS_VEL_HIST (sc_obB late) = [[(0, 0)], [(0, 0)]]"
  "SCEN_PROB (sc_obB late) = 3 / 2000" "SCEN_ID (sc_obB late) = ''0_0_2''"
  "CUR_T (sc_obB late) = 2" "END_T (sc_obB late) = 6"
  by (simp_all add: sc_obB_def sc_obs_def obs_window_fields sc_gen_fields sc_cut_def sc_B0_def
      sc_child_def obs_hist_def slice_last_def scene_frame_def agent_frames_def agent_frame_def
      latest_pose_0 jump_cov_def root_id sc_root_def six_def mm_id vsub0)

lemma candidate_pruned:
  "\<not> list_ex (\<lambda>h. h = []) (TRAJS_COV_HIST ob) \<Longrightarrow> res_cls m * SCEN_PROB ob < 1 / 1000
    \<Longrightarrow> candidate g ob idx k m = Inr None"
  by (simp add: candidate_def Let_def)

lemma policy_ok: "(10 < - max x 0 - 100001 / 100000) = False" for x :: real
  by (simp add: max_def)

lemma cand_G1:
  "candidate (sc_state late t (Suc 0)) (sc_obA late) 0 0 (ex_mode (1 / 2) (six (0, 0)) (sc_late x))
    = Inr (Some (sc_child (sc_obA late) ''1_0_0'' (1 / 2) ((0, 1) # six (0, 1)) (sc_covG x),
                 1 / 2, [Some 0]))"
  by (simp add: sc_eval obA_fields sc_late_def sc_covG_def policy_ok)

lemma cand_G2:
  "candidate (sc_state late t (Suc 0)) (sc_obA late) 0 (Suc 0) (ex_mode (1 / 2) (turn (- 1, - 1)) (sc_late x))
    = Inr (Some (sc_child (sc_obA late) ''1_0_1'' (1 / 2)
                  [(0, 1), (0, 1), (- 1, 0), (- 1, 0), (- 1, 0), (- 1, 0), (- 1, 0)] (sc_covG x),
                 1 / 2, [Some (pi / 2)]))"
  by (simp add: sc_eval obA_fields sc_late_def sc_covG_def policy_ok)

lemma collate0:
  "collate_fn [sc_leaf ''0_0_1'' ''root'' [] 1 (st_armed late (sc_cut sc_A0 2) False),
        sc_leaf ''0_0_2'' ''root'' [] 1 (st_armed late (sc_cut sc_B0 2) False)]
    = Inr [sc_obA late, sc_obB late]"
  by (simp add: leaf_sel st_armed_def sc_obA_def sc_obB_def)

lemma answer_A: "sc_answer late (sc_obA late)
   = [ex_mode (1 / 2) (six (0, 0)) late, ex_mode (1 / 2) (turn (- 1, - 1)) late]"
  by (simp add: sc_answer_def obA_fields)

lemma answer_B: "sc_answer late (sc_obB late)
   = [ex_mode (1 / 2) (six (0, 0)) (six 1), ex_mode (1 / 2) (six (0, 0)) (six 1)]"
  by (simp add: sc_answer_def obB_fields)

lemma pruned_B: "candidate g (sc_obB late) idx k (ex_mode (1 / 2) a c) = Inr None"
  by (rule candidate_pruned) (simp_all add: obB_fields ex_mode_cls)

lemma dist_G: "distinguishable [Some 0] [Some (pi / 2)]"
  by (rule dist_simps)

lemma prune_round1:
  "prune_merge (sc_state (sc_late x) t (Suc 0)) [sc_obA (sc_late x), sc_obB (sc_late x)]
      (network (sc_state (sc_late x) t (Suc 0)) [sc_obA (sc_late x), sc_obB (sc_late x)])
     = Inr [sc_G1 x, sc_G2 x]"
  by (simp add: prune_merge_def sc_state_fields answer_A answer_B ex_mode_cls
      argsort2 cand_G1 cand_G2 pruned_B dist_simps sc_G1_def sc_G2_def)

lemma G_ids: "SCEN_ID (sc_G1 x) = ''1_0_0''" "SCEN_ID (sc_G2 x) = ''1_0_1''"
  "PARENT_ID (sc_G1 x) = Some ''0_0_1''" "PARENT_ID (sc_G2 x) = Some ''0_0_1''"
  by (simp_all add: sc_G1_def sc_G2_def sc_child_def obA_fields)

lemma create_round1:
  "create_nodes (sc_state (sc_late x) (sc_tree0 (sc_late x)) d) [sc_G1 x, sc_G2 x]
    = Inr (sc_state (sc_late x)
        (sc_tree x (st_armed (sc_late x) (sc_cut sc_B0 2) False) (fresh_data (sc_G1 x)) (fresh_data (sc_G2 x))) d)"
  by (simp add: create_nodes_def sc_state_fields sc_state_tree add_node_def Node_def get_node_def
      G_ids add_child_key_def sc_rootn_def sc_leaf_def sc_tree0_def sc_tree_def)

lemmas sc_gbt = get_branch_time_def compare_step_def sc_state_fields sc_child_def
  upt_rec col_def cov_grows_def ratio_exceeds_def sc_covG_def obA_fields jump_cov_def sc_cut_def

lemma gbt_G1_N: "get_branch_time (sc_state late t d) (sc_G1 10) = Inr (4, (sc_G1 10)\<lparr>END_T := 4\<rparr>)"
  by (simp add: sc_gbt sc_G1_def)

lemma gbt_G2_N: "get_branch_time (sc_state late t d) (sc_G2 10) = Inr (4, (sc_G2 10)\<lparr>END_T := 4\<rparr>)"
  by (simp add: sc_gbt sc_G2_def)

lemma gbt_G1_T: "get_branch_time (sc_state late t d) (sc_G1 0) = Inr (6, sc_G1 0)"
  by (simp add: sc_gbt sc_G1_def)

lemma gbt_G2_T: "get_branch_time (sc_state late t d) (sc_G2 0) = Inr (6, sc_G2 0)"
  by (simp add: sc_gbt sc_G2_def)

lemma gbt_cut_B: "get_branch_time (sc_state late t d) (sc_cut sc_B0 2) = Inr (2, sc_cut sc_B0 2)"
  by (simp add: sc_gbt sc_B0_def)

lemma gbt_cut_G1: "get_branch_time (sc_state late t d) (sc_cut (sc_G1 10) 4) = Inr (4, sc_cut (sc_G1 10) 4)"
  by (simp add: sc_gbt sc_G1_def)

lemma gbt_cut_G2: "get_branch_time (sc_state late t d) (sc_cut (sc_G2 10) 4) = Inr (4, sc_cut (sc_G2 10) 4)"
  by (simp add: sc_gbt sc_G2_def)

lemmas sc_uo = cut_hist_def sc_state_fields sc_child_def sc_root_def sc_cut_def
      slice_to_def obs_hist_def slice_last_def six_def jump_cov_def agent_frames_def scene_frame_def
      latest_pose_0 agent_frame_def sc_goal_def idm_def Let_def sc_state_resolver sc_window_state
      sc_covG_def obA_fields

lemma uo_G1: "update_obser (sc_state late t d) ((sc_G1 10)\<lparr>END_T := 4\<rparr>)
     = Inr (sc_obs late (sc_cut (sc_G1 10) 4), sc_cut (sc_G1 10) 4)"
  apply (simp add: update_obser_def sc_state_fields sc_state_resolver sc_window_state sc_obs_def)
  apply (simp add: sc_uo sc_G1_def)
  done

lemma uo_G2: "update_obser (sc_state late t d) ((sc_G2 10)\<lparr>END_T := 4\<rparr>)
     = Inr (sc_obs late (sc_cut (sc_G2 10) 4), sc_cut (sc_G2 10) 4)"
  apply (simp add: update_obser_def sc_state_fields sc_state_resolver sc_window_state sc_obs_def)
  apply (simp add: sc_uo sc_G2_def)
  done

lemma uo_cut_B: "update_obser (sc_state late t d) (sc_cut sc_B0 2)
     = Inr (sc_obs late (sc_cut sc_B0 2), sc_cut sc_B0 2)"
  apply (simp add: update_obser_def sc_state_fields sc_state_resolver sc_window_state sc_obs_def)
  apply (simp add: sc_uo sc_B0_def)
  done

lemma uo_cut_G1: "update_obser (sc_state late t d) (sc_cut (sc_G1 10) 4)
     = Inr (sc_obs late (sc_cut (sc_G1 10) 4), sc_cut (sc_G1 10) 4)"
  apply (simp add: update_obser_def sc_state_fields sc_state_resolver sc_window_state sc_obs_def)
  apply (simp add: sc_uo sc_G1_def)
  done

lemma uo_cut_G2: "update_obser (sc_state late t d) (sc_cut (sc_G2 10) 4)
     = Inr (sc_obs late (sc_cut (sc_G2 10) 4), sc_cut (sc_G2 10) 4)"
  apply (simp add: update_obser_def sc_state_fields sc_state_resolver sc_window_state sc_obs_def)
  apply (simp add: sc_uo sc_G2_def)
  done

lemma decide_first: "decide_leaf g (sc_leaf k p ch dep (st_armed late pd tf))
    = Inr (sc_leaf k p ch dep (st_done late pd))"
  by (simp add: decide_leaf_def leaf_sel st_armed_def st_done_def)

lemma decide_end: "decide_leaf g (sc_leaf k p ch dep (st_end pd)) = Inr (sc_leaf k p ch dep (st_end pd))"
  by (simp add: decide_leaf_def leaf_sel st_end_def)

lemma decide_G1_N: "decide_leaf (sc_state (sc_late 10) t d) (sc_leaf k p ch 2 (fresh_data (sc_G1 10)))
    = Inr (sc_leaf k p ch 2 (st_armed (sc_late 10) sc_cG1 False))"
  by (simp add: decide_leaf_def leaf_sel fresh_data_def sc_state_fields gbt_G1_N uo_G1 st_armed_def sc_cG1_def)

lemma decide_G2_N: "decide_leaf (sc_state (sc_late 10) t d) (sc_leaf k p ch 2 (fresh_data (sc_G2 10)))
    = Inr (sc_leaf k p ch 2 (st_armed (sc_late 10) sc_cG2 False))"
  by (simp add: decide_leaf_def leaf_sel fresh_data_def sc_state_fields gbt_G2_N uo_G2 st_armed_def sc_cG2_def)

lemma decide_G1_T: "decide_leaf (sc_state late t d) (sc_leaf k p ch 2 (fresh_data (sc_G1 0)))
    = Inr (sc_leaf k p ch 2 (st_end (sc_G1 0)))"
  by (simp add: decide_leaf_def leaf_sel fresh_data_def sc_state_fields gbt_G1_T st_end_def)

lemma decide_G2_T: "decide_leaf (sc_state late t d) (sc_leaf k p ch 2 (fresh_data (sc_G2 0)))
    = Inr (sc_leaf k p ch 2 (st_end (sc_G2 0)))"
  by (simp add: decide_leaf_def leaf_sel fresh_data_def sc_state_fields gbt_G2_T st_end_def)

lemma rearm_B: "decide_leaf (sc_state late t d) (sc_leaf k p ch (Suc 0) (st_done late sc_cB))
    = Inr (sc_leaf k p ch (Suc 0) (st_armed late sc_cB True))"
  by (simp add: decide_leaf_def leaf_sel sc_state_fields gbt_cut_B uo_cut_B st_armed_def st_done_def sc_cB_def)

lemma rearm_G1: "decide_leaf (sc_state late t d) (sc_leaf k p ch 2 (st_done late sc_cG1))
    = Inr (sc_leaf k p ch 2 (st_armed late sc_cG1 True))"
  by (simp add: decide_leaf_def leaf_sel sc_state_fields gbt_cut_G1 uo_cut_G1 st_armed_def st_done_def sc_cG1_def)

lemma rearm_G2: "decide_leaf (sc_state late t d) (sc_leaf k p ch 2 (st_done late sc_cG2))
    = Inr (sc_leaf k p ch 2 (st_armed late sc_cG2 True))"
  by (simp add: decide_leaf_def leaf_sel sc_state_fields gbt_cut_G2 uo_cut_G2 st_armed_def st_done_def sc_cG2_def)

lemma obG_fields:
  "TRAJS_COV_HIST (sc_obs late sc_cG1) = [[100001 / 100000], [100001 / 100000]]"
  "TRAJS_COV_HIST (sc_obs late sc_cG2) = [[100001 / 100000], [100001 / 100000]]"
  "SCEN_PROB (sc_obs late sc_cG1) = 3 / 2000" "SCEN_PROB (sc_obs late sc_cG2) = 3 / 2000"
  "SCEN_ID (sc_obs late sc_cG1) = ''1_0_0''" "SCEN_ID (sc_obs late sc_cG2) = ''1_0_1''"
  by (simp_all add: sc_cG1_def sc_cG2_def sc_obs_def obs_window_fields sc_gen_fields sc_cut_def
      sc_G1_def sc_G2_def sc_child_def obs_hist_def slice_last_def sc_covG_def obA_fields)

lemma pruned_G: "candidate g (sc_obs late sc_cG1) idx k (ex_mode (1 / 2) a c) = Inr None"
  "candidate g (sc_obs late sc_cG2) idx k (ex_mode (1 / 2) a c) = Inr None"
  by (rule candidate_pruned; simp add: obG_fields ex_mode_cls)+

lemma answer_G: "sc_answer late (sc_obs late sc_cG1)
   = [ex_mode (1 / 2) (six (0, 0)) (six 1), ex_mode (1 / 2) (six (0, 0)) (six 1)]"
  "sc_answer late (sc_obs late sc_cG2)
   = [ex_mode (1 / 2) (six (0, 0)) (six 1), ex_mode (1 / 2) (six (0, 0)) (six 1)]"
  by (simp_all add: sc_answer_def obG_fields)

lemma prune_G:
  "prune_merge (sc_state late t d) [sc_obs late sc_cG1, sc_obs late sc_cG2]
      (network (sc_state late t d) [sc_obs late sc_cG1, sc_obs late sc_cG2]) = Inr []"
  by (simp add: prune_merge_def sc_state_fields answer_G ex_mode_cls argsort2 pruned_G)

lemma prune_B:
  "prune_merge (sc_state late t d) [sc_obs late sc_cB]
      (network (sc_state late t d) [sc_obs late sc_cB]) = Inr []"
  using answer_B[of late] pruned_B[of _ late]
  by (simp add: prune_merge_def sc_state_fields ex_mode_cls argsort2 sc_obB_def sc_cB_def)

lemma create_none: "create_nodes (sc_state late t d) [] = Inr (sc_state late t d)"
  by (simp add: create_nodes_def sc_state_fields sc_state_tree)

lemma decide_tree1:
  "decide_branch (sc_state (sc_late 10) (sc_tree 10 (st_armed (sc_late 10) sc_cB False) (fresh_data (sc_G1 10))
       (fresh_data (sc_G2 10))) d) = Inr (sc_state (sc_late 10) (sc_Q False) d)"
  by (simp add: decide_branch_def sc_state_fields sc_state_tree sc_tree_def rootn_sel leaf_sel
      decide_first decide_end decide_G1_N decide_G2_N sc_Q_def)

lemma round1: "aime_round (sc_state (sc_late 10) (sc_tree0 (sc_late 10)) (Suc 0))
     [sc_leaf ''0_0_1'' ''root'' [] 1 (st_armed (sc_late 10) (sc_cut sc_A0 2) False),
      sc_leaf ''0_0_2'' ''root'' [] 1 (st_armed (sc_late 10) (sc_cut sc_B0 2) False)]
   = Inr (sc_state (sc_late 10) (sc_Q False) (Suc 0))"
  by (simp only: aime_round_def collate0 sum.case prune_round1 create_round1
      decide_tree1[unfolded sc_cB_def])

lemma decide_Q: "decide_branch (sc_state (sc_late 10) (sc_Q tf) d) = Inr (sc_state (sc_late 10) sc_P d)"
  by (simp add: decide_branch_def sc_state_fields sc_state_tree sc_tree_def rootn_sel leaf_sel
      decide_first decide_end rearm_B sc_Q_def sc_P_def)

lemma decide_P: "decide_branch (sc_state (sc_late 10) sc_P d) = Inr (sc_state (sc_late 10) (sc_Q True) d)"
  by (simp add: decide_branch_def sc_state_fields sc_state_tree sc_tree_def rootn_sel leaf_sel
      decide_first decide_end rearm_G1 rearm_G2 sc_Q_def sc_P_def)

lemma collate_G: "collate_fn (sc_setG tf) = Inr [sc_obs (sc_late 10) sc_cG1, sc_obs (sc_late 10) sc_cG2]"
  by (simp add: sc_setG_def leaf_sel st_armed_def)

lemma collate_B: "collate_fn sc_setB = Inr [sc_obs (sc_late 10) sc_cB]"
  by (simp add: sc_setB_def leaf_sel st_armed_def)

lemma round_Q: "aime_round (sc_state (sc_late 10) (sc_Q tf) d) (sc_setG tf) = Inr (sc_state (sc_late 10) sc_P d)"
  by (simp only: aime_round_def collate_G sum.case prune_G create_none decide_Q)

lemma round_P: "aime_round (sc_state (sc_late 10) sc_P d) sc_setB = Inr (sc_state (sc_late 10) (sc_Q True) d)"
  by (simp only: aime_round_def collate_B sum.case prune_B create_none decide_P)

lemma set_Q: "get_branch_set (sc_state (sc_late 10) (sc_Q tf) d) = (sc_setG tf, sc_state (sc_late 10) (sc_Q tf) (d + 1))"
  by (simp add: get_branch_set_def sc_state_fields sc_state_depth get_leaf_nodes_def sc_Q_def
      sc_tree_def rootn_sel leaf_sel st_end_def st_armed_def st_done_def sc_setG_def)

lemma set_P: "get_branch_set (sc_state (sc_late 10) sc_P d) = (sc_setB, sc_state (sc_late 10) sc_P (d + 1))"
  by (simp add: get_branch_set_def sc_state_fields sc_state_depth get_leaf_nodes_def sc_P_def
      sc_tree_def rootn_sel leaf_sel st_end_def st_armed_def st_done_def sc_setB_def)

lemma loop_alternates:
  "aime_loop n (sc_setB, sc_state (sc_late 10) sc_P d) = None
   \<and> aime_loop n (sc_setG tf, sc_state (sc_late 10) (sc_Q tf) d) = None"
proof (induction n arbitrary: d tf)
  case 0
  show ?case by (simp add: sc_setB_def sc_setG_def)
next
  case (Suc n)
  have "aime_loop (Suc n) (sc_setB, sc_state (sc_late 10) sc_P d) = aime_loop n (sc_setG True, sc_state (sc_late 10) (sc_Q True) (d + 1))"
    by (simp add: round_P set_Q) (simp add: sc_setB_def)
  moreover have "aime_loop (Suc n) (sc_setG tf, sc_state (sc_late 10) (sc_Q tf) d) = aime_loop n (sc_setB, sc_state (sc_late 10) sc_P (d + 1))"
    by (simp add: round_Q set_P) (simp add: sc_setG_def)
  ultimately show ?case using Suc.IH by simp
qed

lemma process_state_eq: "process_data (sc_state late t d) sm = process_data (sc_gen late) sm"
  unfolding process_data_def sc_state_fields sc_gen_fields agent_frame_state sc_state_resolver sc_resolver ..

lemma expand_sc: "expand n (reset (sc_gen late)) sc_sample
    = aime_loop n (get_branch_set (sc_state late (sc_tree0 late) 0))"
  by (simp only: expand_def sc_reset process_state_eq process_sc sum.case init_sc)

lemma expand_diverges: "expand n (reset (sc_gen (sc_late 10))) sc_sample = None"
proof (cases n)
  case 0
  then show ?thesis by (simp add: expand_sc branch_set0)
next
  case (Suc m)
  have r: "aime_round (sc_state (sc_late 10) (sc_tree0 (sc_late 10)) 1)
     [sc_leaf ''0_0_1'' ''root'' [] 1 (st_armed (sc_late 10) (sc_cut sc_A0 2) False),
      sc_leaf ''0_0_2'' ''root'' [] 1 (st_armed (sc_late 10) (sc_cut sc_B0 2) False)]
     = Inr (sc_state (sc_late 10) (sc_Q False) 1)"
    using round1 by simp
  have "expand n (reset (sc_gen (sc_late 10))) sc_sample = aime_loop m (sc_setG False, sc_state (sc_late 10) (sc_Q False) (1 + 1))"
    unfolding expand_sc branch_set0 Suc
    apply (subst aime_loop.simps)
    apply (simp only: r sum.case nat.case list.distinct if_False set_Q)
    done
  then show ?thesis using loop_alternates[of m] by simp
qed

section \<open>The loop of \<^verbatim>\<open>branch_aime\<close> need not end\<close>

text \<open>
  C1 (the generator loop ends within \<^verbatim>\<open>max_depth\<close> rounds), on the run above with
  \<open>late = sc_late 10\<close> and \<^verbatim>\<open>max_depth = 3\<close>: no number of rounds empties the branch set,
  so \<^verbatim>\<open>branch_aime\<close> never returns. The first round creates the two children of the left
  turn and finds no surviving child for the right turn; from then on the right turn
  and the two children are visited in turn: the pass of \<^verbatim>\<open>decide_branch\<close> that clears the
  \<^verbatim>\<open>branch_flag\<close> of the one (and sets its \<^verbatim>\<open>terminate_flag\<close>, which nothing reads)
  finds the other without \<^verbatim>\<open>branch_flag\<close> and \<^verbatim>\<open>end_flag\<close>, below the depth limit and with
  a branch time before the horizon, and makes it branch-ready again.
\<close>

theorem generator_loop_diverges:
  "max_depth (reset (sc_gen (sc_late 10))) = 3
   \<and> (\<forall>n. expand n (reset (sc_gen (sc_late 10))) sc_sample = None)
   \<and> (\<forall>n. branch_aime n (reset (sc_gen (sc_late 10))) sc_sample = None)"
proof -
  have "max_depth (reset (sc_gen (sc_late 10))) = 3"
    by (simp add: reset_def sc_gen_fields)
  then show ?thesis
    by (simp add: branch_aime_def expand_diverges)
qed

section \<open>Scenario identifiers and the keys of the search tree\<close>

















lemma aime_loop_reach:
  "aime_loop n (bn, g) = Some (Inr g') \<Longrightarrow> reach g0 sm (bn, g) \<Longrightarrow> reach g0 sm ([], g')"
proof (induction n arbitrary: bn g)
  case 0
  then show ?case by (simp split: if_splits)
next
  case (Suc n)
  show ?case
  proof (cases "bn = []")
    case True
    with Suc.prems show ?thesis by simp
  next
    case False
    with Suc.prems(1) obtain g1 where
      r: "aime_round g bn = Inr g1" and l: "aime_loop n (get_branch_set g1) = Some (Inr g')"
      by (auto split: sum.splits)
    have "reach g0 sm (get_branch_set g1)"
      by (rule reach_round[OF Suc.prems(2) False r])
    with Suc.IH[of "fst (get_branch_set g1)" "snd (get_branch_set g1)"] l show ?thesis by simp
  qed
qed

lemma expand_reach: "expand n g0 sm = Some (Inr g') \<Longrightarrow> reach g0 sm ([], g')"
proof -
  assume e: "expand n g0 sm = Some (Inr g')"
  then obtain d g1 where
    p: "process_data g0 sm = Inr d" and i: "init_scenario_tree g0 d = Inr g1"
    and l: "aime_loop n (get_branch_set g1) = Some (Inr g')"
    by (auto simp: expand_def split: sum.splits)
  have "reach g0 sm (get_branch_set g1)" by (rule reach_init[OF p i])
  with aime_loop_reach[of n "fst (get_branch_set g1)" "snd (get_branch_set g1)" g' g0 sm] l
  show ?thesis by simp
qed













end
